theory Spec2Isabelle
  imports Main
begin

section \<open>Python values used by keras-resnet\<close>

text \<open>
  A Python \<open>str\<close> is a sequence of Unicode code points, so it is modelled as a list of
  code-point numbers. \<open>lit\<close> turns an ASCII literal of the source into such a list.
\<close>

type_synonym pystr = "nat list"

definition lit :: "string \<Rightarrow> pystr" where
  "lit s = map of_char s"

text \<open>The exceptions the modelled code can raise.\<close>

datatype py_error = ValueError | OverflowError | IndexError | AssertionError

text \<open>
  \<open>str(n)\<close> for a Python \<open>int\<close>: the decimal digits, most significant first, with a
  leading minus sign for a negative number.
\<close>

fun str_nat :: "nat \<Rightarrow> pystr" where
  "str_nat n = (if n < 10 then [48 + n] else str_nat (n div 10) @ [48 + n mod 10])"

declare str_nat.simps [simp del]

definition str_int :: "int \<Rightarrow> pystr" where
  "str_int i = (if i < 0 then 45 # str_nat (nat (- i)) else str_nat (nat i))"

text \<open>
  \<open>chr(i)\<close>: the one-character string of code point \<open>i\<close>. CPython raises
  \<open>OverflowError\<close> when \<open>i\<close> does not fit a C \<open>int\<close> and \<open>ValueError\<close> when it is
  outside \<open>range(0x110000)\<close>.
\<close>

definition py_chr :: "int \<Rightarrow> py_error + pystr" where
  "py_chr i =
     (if i < - (2 ^ 31) \<or> 2 ^ 31 \<le> i then Inl OverflowError
      else if 0 \<le> i \<and> i < 1114112 then Inr [nat i]
      else Inl ValueError)"

text \<open>\<open>ord('a')\<close>.\<close>

definition ord_a :: int where
  "ord_a = 97"

text \<open>\<open>range(n)\<close> as the list it iterates over; empty when \<open>n \<le> 0\<close>.\<close>

definition py_range :: "int \<Rightarrow> int list" where
  "py_range n = map int [0 ..< nat n]"

text \<open>
  \<open>xs[i]\<close> for a list: an index from 0 up reads from the front, a negative one from
  the back, and any other raises.
\<close>

definition py_index :: "'a list \<Rightarrow> int \<Rightarrow> py_error + 'a" where
  "py_index xs i =
     (if 0 \<le> i \<and> i < int (length xs) then Inr (xs ! nat i)
      else if - int (length xs) \<le> i \<and> i < 0 then Inr (xs ! nat (int (length xs) + i))
      else Inl IndexError)"

text \<open>
  \<open>"pre{}{}post".format(a, b)\<close>: every name template of the source has exactly two
  placeholders, side by side.
\<close>

definition format2 :: "string \<Rightarrow> string \<Rightarrow> pystr \<Rightarrow> pystr \<Rightarrow> pystr" where
  "format2 pre post a b = lit pre @ a @ b @ lit post"

section \<open>The host framework's layers and tensors\<close>

text \<open>
  Layers are the host framework's; the repository only instantiates them and wires them
  together. A layer is modelled by its constructor arguments as the source passes them,
  and a tensor by the expression that builds it: a model input, or a layer called on
  tensors. The framework's own shape and configuration checks are outside the model.
  An argument the source leaves out (the \<open>strides\<close> of some convolutions) is \<open>None\<close>.
  \<open>epsilon=1e-5\<close> is kept as the literal's mantissa and decimal exponent.

  The arguments, in the order of the constructors below:
  \<^item> \<open>ZeroPadding1D\<close>: padding, name;
  \<^item> \<open>Conv1D\<close>: filters, kernel size, strides, use_bias, name, kernel_initializer;
  \<^item> \<open>BatchNormalization\<close>: axis, epsilon, freeze, name;
  \<^item> \<open>Activation\<close>: activation, name;
  \<^item> \<open>Add\<close>: name;
  \<^item> \<open>Conv2D\<close>: filters, kernel size, strides, use_bias, name, padding;
  \<^item> \<open>MaxPooling2D\<close>: pool size, strides, padding, name;
  \<^item> \<open>GlobalAveragePooling2D\<close>: name;
  \<^item> \<open>Dense\<close>: units, activation, name.
\<close>

datatype data_format = channels_last | channels_first

datatype layer =
    ZeroPadding1D int pystr
  | Conv1D int int "int option" bool pystr pystr
  | BatchNormalization int "int \<times> int" bool pystr
  | Activation pystr pystr
  | Add pystr
  | Conv2D int "int \<times> int" "int \<times> int" bool pystr pystr
  | MaxPooling2D "int \<times> int" "int \<times> int" pystr pystr
  | GlobalAveragePooling2D pystr
  | Dense int pystr pystr

datatype tensor = Input nat | Call layer "tensor list"


text \<open>\<open>parameters = {"kernel_initializer": "he_normal"}\<close>, passed to every \<open>Conv1D\<close>.\<close>

definition parameters :: pystr where
  "parameters = lit ''he_normal''"

section \<open>blocks/_1d.py\<close>

subsection \<open>The values derived before the block function is built\<close>

text \<open>
  \<open>basic_1d\<close>, lines 52 to 56: a nested \<open>if\<close> statement that assigns \<open>stride\<close>
  only when the argument is \<open>None\<close>.
\<close>

definition basic_1d_stride :: "int option \<Rightarrow> int \<Rightarrow> int \<Rightarrow> int" where
  "basic_1d_stride stride stage block =
     (case stride of
        None \<Rightarrow> (if block \<noteq> 0 \<or> stage = 0 then 1 else 2)
      | Some s \<Rightarrow> s)"

text \<open>
  \<open>bottleneck_1d\<close>, lines 182 and 183: the same guard, with a conditional expression
  as the assigned value.
\<close>

definition bottleneck_1d_stride :: "int option \<Rightarrow> int \<Rightarrow> int \<Rightarrow> int" where
  "bottleneck_1d_stride stride stage block =
     (case stride of
        None \<Rightarrow> (if block \<noteq> 0 \<or> stage = 0 then 1 else 2)
      | Some s \<Rightarrow> s)"

text \<open>Lines 58 to 61 and 185 to 188.\<close>

definition axis_1d :: "data_format \<Rightarrow> int" where
  "axis_1d fmt = (if fmt = channels_last then - 1 else 1)"

text \<open>Lines 63 to 66 (\<open>basic_1d\<close>) and 190 to 193 (\<open>bottleneck_1d\<close>).\<close>

definition basic_1d_block_char :: "int \<Rightarrow> bool \<Rightarrow> py_error + pystr" where
  "basic_1d_block_char block numerical_name =
     (if block > 0 \<and> numerical_name then Inr (lit ''b'' @ str_int block)
      else py_chr (ord_a + block))"

definition bottleneck_1d_block_char :: "int \<Rightarrow> bool \<Rightarrow> py_error + pystr" where
  "bottleneck_1d_block_char block numerical_name =
     (if block > 0 \<and> numerical_name then Inr (lit ''b'' @ str_int block)
      else py_chr (ord_a + block))"

text \<open>Lines 68 and 195.\<close>

definition basic_1d_stage_char :: "int \<Rightarrow> pystr" where
  "basic_1d_stage_char stage = str_int (stage + 2)"

definition bottleneck_1d_stage_char :: "int \<Rightarrow> pystr" where
  "bottleneck_1d_stage_char stage = str_int (stage + 2)"

subsection \<open>The block functions\<close>

text \<open>
  The inner function \<open>f\<close> of \<open>basic_1d\<close> (lines 70 to 145), with the variables it
  closes over as arguments. \<open>layers.BatchNormalization\<close> is the repository's own
  normalisation layer; here it is a layer like the framework's.
\<close>

definition basic_1d_f ::
  "int \<Rightarrow> int \<Rightarrow> int \<Rightarrow> int \<Rightarrow> bool \<Rightarrow> int \<Rightarrow> pystr \<Rightarrow> pystr \<Rightarrow> tensor \<Rightarrow> tensor" where
  "basic_1d_f filters block kernel_size stride freeze_bn axis stage_char block_char x =
     (let y = Call (ZeroPadding1D 1 (format2 ''padding'' ''_branch2a'' stage_char block_char)) [x];
          y = Call (Conv1D filters kernel_size (Some stride) False
                      (format2 ''res'' ''_branch2a'' stage_char block_char) parameters) [y];
          y = Call (BatchNormalization axis (1, - 5) freeze_bn
                      (format2 ''bn'' ''_branch2a'' stage_char block_char)) [y];
          y = Call (Activation (lit ''relu'')
                      (format2 ''res'' ''_branch2a_relu'' stage_char block_char)) [y];
          y = Call (ZeroPadding1D 1 (format2 ''padding'' ''_branch2b'' stage_char block_char)) [y];
          y = Call (Conv1D filters kernel_size None False
                      (format2 ''res'' ''_branch2b'' stage_char block_char) parameters) [y];
          y = Call (BatchNormalization axis (1, - 5) freeze_bn
                      (format2 ''bn'' ''_branch2b'' stage_char block_char)) [y];
          shortcut =
            (if block = 0 then
               (let shortcut = Call (Conv1D filters 1 (Some stride) False
                                       (format2 ''res'' ''_branch1'' stage_char block_char)
                                       parameters) [x];
                    shortcut = Call (BatchNormalization axis (1, - 5) freeze_bn
                                       (format2 ''bn'' ''_branch1'' stage_char block_char))
                                 [shortcut]
                in shortcut)
             else x);
          y = Call (Add (format2 ''res'' [] stage_char block_char)) [y, shortcut];
          y = Call (Activation (lit ''relu'') (format2 ''res'' ''_relu'' stage_char block_char)) [y]
      in y)"

text \<open>
  \<open>basic_1d\<close> (lines 20 to 147). \<open>fmt\<close> is what
  \<open>keras.backend.image_data_format()\<close> returns. Computing the block character may raise,
  and then no block function is returned.
\<close>

definition basic_1d ::
  "data_format \<Rightarrow> int \<Rightarrow> int \<Rightarrow> int \<Rightarrow> int \<Rightarrow> bool \<Rightarrow> int option \<Rightarrow> bool
     \<Rightarrow> py_error + (tensor \<Rightarrow> tensor)" where
  "basic_1d fmt filters stage block kernel_size numerical_name stride freeze_bn =
     (let stride = basic_1d_stride stride stage block;
          axis = axis_1d fmt
      in case basic_1d_block_char block numerical_name of
           Inl e \<Rightarrow> Inl e
         | Inr block_char \<Rightarrow>
             (let stage_char = basic_1d_stage_char stage
              in Inr (basic_1d_f filters block kernel_size stride freeze_bn axis
                        stage_char block_char)))"

text \<open>The inner function \<open>f\<close> of \<open>bottleneck_1d\<close> (lines 197 to 287).\<close>

definition bottleneck_1d_f ::
  "int \<Rightarrow> int \<Rightarrow> int \<Rightarrow> int \<Rightarrow> bool \<Rightarrow> int \<Rightarrow> pystr \<Rightarrow> pystr \<Rightarrow> tensor \<Rightarrow> tensor" where
  "bottleneck_1d_f filters block kernel_size stride freeze_bn axis stage_char block_char x =
     (let y = Call (Conv1D filters 1 (Some stride) False
                      (format2 ''res'' ''_branch2a'' stage_char block_char) parameters) [x];
          y = Call (BatchNormalization axis (1, - 5) freeze_bn
                      (format2 ''bn'' ''_branch2a'' stage_char block_char)) [y];
          y = Call (Activation (lit ''relu'')
                      (format2 ''res'' ''_branch2a_relu'' stage_char block_char)) [y];
          y = Call (ZeroPadding1D 1 (format2 ''padding'' ''_branch2b'' stage_char block_char)) [y];
          y = Call (Conv1D filters kernel_size None False
                      (format2 ''res'' ''_branch2b'' stage_char block_char) parameters) [y];
          y = Call (BatchNormalization axis (1, - 5) freeze_bn
                      (format2 ''bn'' ''_branch2b'' stage_char block_char)) [y];
          y = Call (Activation (lit ''relu'')
                      (format2 ''res'' ''_branch2b_relu'' stage_char block_char)) [y];
          y = Call (Conv1D (filters * 4) 1 None False
                      (format2 ''res'' ''_branch2c'' stage_char block_char) parameters) [y];
          y = Call (BatchNormalization axis (1, - 5) freeze_bn
                      (format2 ''bn'' ''_branch2c'' stage_char block_char)) [y];
          shortcut =
            (if block = 0 then
               (let shortcut = Call (Conv1D (filters * 4) 1 (Some stride) False
                                       (format2 ''res'' ''_branch1'' stage_char block_char)
                                       parameters) [x];
                    shortcut = Call (BatchNormalization axis (1, - 5) freeze_bn
                                       (format2 ''bn'' ''_branch1'' stage_char block_char))
                                 [shortcut]
                in shortcut)
             else x);
          y = Call (Add (format2 ''res'' [] stage_char block_char)) [y, shortcut];
          y = Call (Activation (lit ''relu'') (format2 ''res'' ''_relu'' stage_char block_char)) [y]
      in y)"

text \<open>\<open>bottleneck_1d\<close> (lines 150 to 289).\<close>

definition bottleneck_1d ::
  "data_format \<Rightarrow> int \<Rightarrow> int \<Rightarrow> int \<Rightarrow> int \<Rightarrow> bool \<Rightarrow> int option \<Rightarrow> bool
     \<Rightarrow> py_error + (tensor \<Rightarrow> tensor)" where
  "bottleneck_1d fmt filters stage block kernel_size numerical_name stride freeze_bn =
     (let stride = bottleneck_1d_stride stride stage block;
          axis = axis_1d fmt
      in case bottleneck_1d_block_char block numerical_name of
           Inl e \<Rightarrow> Inl e
         | Inr block_char \<Rightarrow>
             (let stage_char = bottleneck_1d_stage_char stage
              in Inr (bottleneck_1d_f filters block kernel_size stride freeze_bn axis
                        stage_char block_char)))"

subsection \<open>Reading a block's graph\<close>

text \<open>
  \<open>new_layers x t\<close>: the layers called to build \<open>t\<close> from \<open>x\<close>, inputs before the layer
  that consumes them. \<open>stack_over x t\<close>: when \<open>t\<close> is a plain stack of single-input
  layers over \<open>x\<close>, those layers from the first applied to the last.
\<close>

fun new_layers :: "tensor \<Rightarrow> tensor \<Rightarrow> layer list" where
  "new_layers x (Input n) = []"
| "new_layers x (Call l ts) =
     (if Call l ts = x then [] else concat (map (new_layers x) ts) @ [l])"

fun stack_over :: "tensor \<Rightarrow> tensor \<Rightarrow> layer list option" where
  "stack_over x (Input n) = (if Input n = x then Some [] else None)"
| "stack_over x (Call l [t]) =
     (if Call l [t] = x then Some []
      else (case stack_over x t of None \<Rightarrow> None | Some ls \<Rightarrow> Some (ls @ [l])))"
| "stack_over x (Call l ts) = (if Call l ts = x then Some [] else None)"

text \<open>What kind of layer a layer is.\<close>

datatype layer_kind = Padding | Convolution | Normalization | Relu | Addition | Other

fun kind_of :: "layer \<Rightarrow> layer_kind" where
  "kind_of (ZeroPadding1D padding name) = Padding"
| "kind_of (Conv1D filters kernel_size strides use_bias name kernel_initializer) = Convolution"
| "kind_of (BatchNormalization axis epsilon freeze name) = Normalization"
| "kind_of (Activation activation name) = (if activation = lit ''relu'' then Relu else Other)"
| "kind_of (Add name) = Addition"
| "kind_of l = Other"

section \<open>models/_2d.py\<close>

text \<open>
  A block builder as \<open>ResNet2D\<close> calls it:
  \<open>block(features, stage_id, block_id, numerical_name=..., freeze_bn=...)\<close> returns the
  function that is then applied to the current tensor, or raises.
\<close>

type_synonym block_fn =
  "int \<Rightarrow> int \<Rightarrow> int \<Rightarrow> bool \<Rightarrow> bool \<Rightarrow> py_error + (tensor \<Rightarrow> tensor)"

text \<open>
  What \<open>keras.Model.__init__\<close> receives: the input tensor, and as \<open>outputs\<close> either one
  tensor or a list of tensors.
\<close>

datatype outputs_arg = Single tensor | Listed "tensor list"

record model =
  model_inputs :: tensor
  model_outputs :: outputs_arg

text \<open>
  \<open>enumerate(xs, start)\<close> as the list of pairs it yields; \<open>enumerate(xs)\<close> starts
  at 0.
\<close>

fun enumerate_from :: "int \<Rightarrow> 'a list \<Rightarrow> (int \<times> 'a) list" where
  "enumerate_from start [] = []"
| "enumerate_from start (x # xs) = (start, x) # enumerate_from (start + 1) xs"

definition py_enumerate :: "'a list \<Rightarrow> (int \<times> 'a) list" where
  "py_enumerate xs = enumerate_from 0 xs"

text \<open>Line 91: \<open>block_id > 0 and numerical_names[stage_id]\<close>.\<close>

definition numerical_name_arg :: "bool list \<Rightarrow> int \<Rightarrow> int \<Rightarrow> py_error + bool" where
  "numerical_name_arg numerical_names stage_id block_id =
     (if block_id > 0 then py_index numerical_names stage_id else Inr False)"

text \<open>
  The inner loop, lines 86 to 93, over the block ids still to come; \<open>x\<close> is the loop's
  state.
\<close>

fun block_loop ::
  "block_fn \<Rightarrow> int \<Rightarrow> int \<Rightarrow> bool list \<Rightarrow> bool \<Rightarrow> int list \<Rightarrow> tensor \<Rightarrow> py_error + tensor" where
  "block_loop block features stage_id numerical_names freeze_bn [] x = Inr x"
| "block_loop block features stage_id numerical_names freeze_bn (block_id # rest) x =
     (case numerical_name_arg numerical_names stage_id block_id of
        Inl e \<Rightarrow> Inl e
      | Inr numerical_name \<Rightarrow>
          (case block features stage_id block_id numerical_name freeze_bn of
             Inl e \<Rightarrow> Inl e
           | Inr f \<Rightarrow>
               block_loop block features stage_id numerical_names freeze_bn rest (f x)))"

text \<open>
  The outer loop, lines 85 to 97, over the enumerated stages still to come; \<open>features\<close>,
  \<open>x\<close> and \<open>outputs\<close> are the loop's state.
\<close>

fun stage_loop ::
  "block_fn \<Rightarrow> bool list \<Rightarrow> bool \<Rightarrow> (int \<times> int) list \<Rightarrow> int \<Rightarrow> tensor \<Rightarrow> tensor list
     \<Rightarrow> py_error + tensor \<times> tensor list" where
  "stage_loop block numerical_names freeze_bn [] features x outputs = Inr (x, outputs)"
| "stage_loop block numerical_names freeze_bn ((stage_id, iterations) # rest) features x outputs =
     (case block_loop block features stage_id numerical_names freeze_bn
             (py_range iterations) x of
        Inl e \<Rightarrow> Inl e
      | Inr x' \<Rightarrow>
          stage_loop block numerical_names freeze_bn rest (features * 2) x' (outputs @ [x']))"

text \<open>Lines 76 to 79: the layers in front of the residual stages.\<close>

definition stem :: "int \<Rightarrow> bool \<Rightarrow> tensor \<Rightarrow> tensor" where
  "stem axis freeze_bn inputs =
     (let x = Call (Conv2D 64 (7, 7) (2, 2) False (lit ''conv1'') (lit ''same'')) [inputs];
          x = Call (BatchNormalization axis (1, - 5) freeze_bn (lit ''bn_conv1'')) [x];
          x = Call (Activation (lit ''relu'') (lit ''conv1_relu'')) [x];
          x = Call (MaxPooling2D (3, 3) (2, 2) (lit ''same'') (lit ''pool1'')) [x]
      in x)"

text \<open>Lines 68 to 71.\<close>

definition axis_2d :: "data_format \<Rightarrow> int" where
  "axis_2d fmt = (if fmt = channels_last then 3 else 1)"

text \<open>Lines 73 and 74.\<close>

definition default_numerical_names :: "bool list option \<Rightarrow> int list \<Rightarrow> bool list" where
  "default_numerical_names numerical_names residual_blocks =
     (case numerical_names of
        None \<Rightarrow> replicate (length residual_blocks) True
      | Some ns \<Rightarrow> ns)"

text \<open>
  \<open>ResNet2D.__init__\<close> (lines 56 to 108). The result is the model handed to the
  framework's constructor, or the exception raised before that. Extra positional and
  keyword arguments, which the source only forwards to the framework, are left out.
\<close>

definition ResNet2D ::
  "data_format \<Rightarrow> tensor \<Rightarrow> int list \<Rightarrow> block_fn \<Rightarrow> bool \<Rightarrow> int \<Rightarrow> bool \<Rightarrow> bool list option
     \<Rightarrow> py_error + model" where
  "ResNet2D fmt inputs residual_blocks block include_top classes freeze_bn numerical_names =
     (let axis = axis_2d fmt;
          numerical_names = default_numerical_names numerical_names residual_blocks;
          x = stem axis freeze_bn inputs;
          features = 64;
          outputs = []
      in case stage_loop block numerical_names freeze_bn (py_enumerate residual_blocks)
                features x outputs of
           Inl e \<Rightarrow> Inl e
         | Inr (x, outputs) \<Rightarrow>
             if include_top then
               if classes > 0 then
                 (let x = Call (GlobalAveragePooling2D (lit ''pool5'')) [x];
                      x = Call (Dense classes (lit ''softmax'') (lit ''fc1000'')) [x]
                  in Inr \<lparr>model_inputs = inputs, model_outputs = Single x\<rparr>)
               else Inl AssertionError
             else Inr \<lparr>model_inputs = inputs, model_outputs = Listed outputs\<rparr>)"

subsection \<open>The named variants\<close>

text \<open>
  The variants pass \<open>blocks.basic_2d\<close> or \<open>blocks.bottleneck_2d\<close>. The module
  \<open>blocks\<close> is an argument here: a record of its two block builders.
\<close>

record blocks_module =
  basic_2d :: block_fn
  bottleneck_2d :: block_fn

definition ResNet2D18 ::
  "blocks_module \<Rightarrow> data_format \<Rightarrow> tensor \<Rightarrow> int list option \<Rightarrow> bool \<Rightarrow> int \<Rightarrow> bool
     \<Rightarrow> py_error + model" where
  "ResNet2D18 blocks fmt inputs residual_blocks include_top classes freeze_bn =
     (let residual_blocks = (case residual_blocks of None \<Rightarrow> [2, 2, 2, 2] | Some rb \<Rightarrow> rb)
      in ResNet2D fmt inputs residual_blocks (basic_2d blocks) include_top classes freeze_bn
           None)"

definition ResNet2D34 ::
  "blocks_module \<Rightarrow> data_format \<Rightarrow> tensor \<Rightarrow> int list option \<Rightarrow> bool \<Rightarrow> int \<Rightarrow> bool
     \<Rightarrow> py_error + model" where
  "ResNet2D34 blocks fmt inputs residual_blocks include_top classes freeze_bn =
     (let residual_blocks = (case residual_blocks of None \<Rightarrow> [3, 4, 6, 3] | Some rb \<Rightarrow> rb)
      in ResNet2D fmt inputs residual_blocks (basic_2d blocks) include_top classes freeze_bn
           None)"

definition ResNet2D50 ::
  "blocks_module \<Rightarrow> data_format \<Rightarrow> tensor \<Rightarrow> int list option \<Rightarrow> bool \<Rightarrow> int \<Rightarrow> bool
     \<Rightarrow> py_error + model" where
  "ResNet2D50 blocks fmt inputs residual_blocks include_top classes freeze_bn =
     (let residual_blocks = (case residual_blocks of None \<Rightarrow> [3, 4, 6, 3] | Some rb \<Rightarrow> rb);
          numerical_names = [False, False, False, False]
      in ResNet2D fmt inputs residual_blocks (bottleneck_2d blocks) include_top classes
           freeze_bn (Some numerical_names))"

definition ResNet2D101 ::
  "blocks_module \<Rightarrow> data_format \<Rightarrow> tensor \<Rightarrow> int list option \<Rightarrow> bool \<Rightarrow> int \<Rightarrow> bool
     \<Rightarrow> py_error + model" where
  "ResNet2D101 blocks fmt inputs residual_blocks include_top classes freeze_bn =
     (let residual_blocks = (case residual_blocks of None \<Rightarrow> [3, 4, 23, 3] | Some rb \<Rightarrow> rb);
          numerical_names = [False, True, True, False]
      in ResNet2D fmt inputs residual_blocks (bottleneck_2d blocks) include_top classes
           freeze_bn (Some numerical_names))"

definition ResNet2D152 ::
  "blocks_module \<Rightarrow> data_format \<Rightarrow> tensor \<Rightarrow> int list option \<Rightarrow> bool \<Rightarrow> int \<Rightarrow> bool
     \<Rightarrow> py_error + model" where
  "ResNet2D152 blocks fmt inputs residual_blocks include_top classes freeze_bn =
     (let residual_blocks = (case residual_blocks of None \<Rightarrow> [3, 8, 36, 3] | Some rb \<Rightarrow> rb);
          numerical_names = [False, True, True, False]
      in ResNet2D fmt inputs residual_blocks (bottleneck_2d blocks) include_top classes
           freeze_bn (Some numerical_names))"

definition ResNet2D200 ::
  "blocks_module \<Rightarrow> data_format \<Rightarrow> tensor \<Rightarrow> int list option \<Rightarrow> bool \<Rightarrow> int \<Rightarrow> bool
     \<Rightarrow> py_error + model" where
  "ResNet2D200 blocks fmt inputs residual_blocks include_top classes freeze_bn =
     (let residual_blocks = (case residual_blocks of None \<Rightarrow> [3, 24, 36, 3] | Some rb \<Rightarrow> rb);
          numerical_names = [False, True, True, False]
      in ResNet2D fmt inputs residual_blocks (bottleneck_2d blocks) include_top classes
           freeze_bn (Some numerical_names))"

subsection \<open>The block calls a construction makes\<close>

text \<open>
  To speak about the blocks that are built, the calls of \<open>block\<close> (line 87) are listed in
  the order the loops make them, each with its five arguments. The listing follows the
  loops' own control flow: a call is listed when the loop reaches it, and the listing
  stops where the construction raises.
\<close>

record block_call =
  call_features :: int
  call_stage :: int
  call_block :: int
  call_numerical_name :: bool
  call_freeze_bn :: bool

fun block_loop_calls ::
  "block_fn \<Rightarrow> int \<Rightarrow> int \<Rightarrow> bool list \<Rightarrow> bool \<Rightarrow> int list \<Rightarrow> tensor \<Rightarrow> block_call list" where
  "block_loop_calls block features stage_id numerical_names freeze_bn [] x = []"
| "block_loop_calls block features stage_id numerical_names freeze_bn (block_id # rest) x =
     (case numerical_name_arg numerical_names stage_id block_id of
        Inl e \<Rightarrow> []
      | Inr numerical_name \<Rightarrow>
          \<lparr>call_features = features, call_stage = stage_id, call_block = block_id,
           call_numerical_name = numerical_name, call_freeze_bn = freeze_bn\<rparr> #
          (case block features stage_id block_id numerical_name freeze_bn of
             Inl e \<Rightarrow> []
           | Inr f \<Rightarrow>
               block_loop_calls block features stage_id numerical_names freeze_bn rest (f x)))"

fun stage_loop_calls ::
  "block_fn \<Rightarrow> bool list \<Rightarrow> bool \<Rightarrow> (int \<times> int) list \<Rightarrow> int \<Rightarrow> tensor \<Rightarrow> block_call list" where
  "stage_loop_calls block numerical_names freeze_bn [] features x = []"
| "stage_loop_calls block numerical_names freeze_bn ((stage_id, iterations) # rest) features x =
     block_loop_calls block features stage_id numerical_names freeze_bn (py_range iterations) x @
     (case block_loop block features stage_id numerical_names freeze_bn
             (py_range iterations) x of
        Inl e \<Rightarrow> []
      | Inr x' \<Rightarrow> stage_loop_calls block numerical_names freeze_bn rest (features * 2) x')"

definition ResNet2D_calls ::
  "data_format \<Rightarrow> tensor \<Rightarrow> int list \<Rightarrow> block_fn \<Rightarrow> bool \<Rightarrow> bool list option \<Rightarrow> block_call list" where
  "ResNet2D_calls fmt inputs residual_blocks block freeze_bn numerical_names =
     stage_loop_calls block
       (default_numerical_names numerical_names residual_blocks) freeze_bn
       (py_enumerate residual_blocks) 64 (stem (axis_2d fmt) freeze_bn inputs)"

text \<open>
  Replaying a list of calls on a tensor: each call's block function applied in turn.
\<close>

fun replay :: "block_fn \<Rightarrow> block_call list \<Rightarrow> tensor \<Rightarrow> py_error + tensor" where
  "replay block [] x = Inr x"
| "replay block (c # cs) x =
     (case block (call_features c) (call_stage c) (call_block c) (call_numerical_name c)
             (call_freeze_bn c) of
        Inl e \<Rightarrow> Inl e
      | Inr f \<Rightarrow> replay block cs (f x))"

text \<open>
  A block builder for concrete instances: a callable with the signature \<open>ResNet2D\<close>
  expects, whose block is one ReLU activation named after its stage and block.
\<close>

definition relu_block :: block_fn where
  "relu_block features stage_id block_id numerical_name freeze_bn =
     Inr (\<lambda>x. Call (Activation (lit ''relu'')
                     (format2 ''stage'' ''_relu'' (str_int stage_id) (str_int block_id))) [x])"

text \<open>
  The calls the two loops are set to make when nothing raises: for each stage \<open>i\<close> with
  \<open>n\<close> iterations, the blocks 0 to \<open>n - 1\<close>, with 64 doubled \<open>i\<close> times as features.
\<close>

definition planned_calls :: "bool list \<Rightarrow> bool \<Rightarrow> int list \<Rightarrow> block_call list" where
  "planned_calls numerical_names freeze_bn residual_blocks =
     concat (map (\<lambda>(stage_id, iterations).
                    map (\<lambda>block_id.
                           \<lparr>call_features = 64 * 2 ^ nat stage_id, call_stage = stage_id,
                            call_block = block_id,
                            call_numerical_name =
                              (block_id > 0 \<and> numerical_names ! nat stage_id),
                            call_freeze_bn = freeze_bn\<rparr>)
                      (py_range iterations))
               (py_enumerate residual_blocks))"

subsection \<open>Vocabulary of the properties\<close>

text \<open>The arguments of a one-dimensional convolution; \<open>None\<close> for any other layer.\<close>

fun conv_strides :: "layer \<Rightarrow> int option" where
  "conv_strides (Conv1D filters kernel_size strides use_bias name kernel_initializer) = strides"
| "conv_strides l = None"

fun conv_filters :: "layer \<Rightarrow> int option" where
  "conv_filters (Conv1D filters kernel_size strides use_bias name kernel_initializer) =
     Some filters"
| "conv_filters l = None"

definition convolutions :: "layer list \<Rightarrow> layer list" where
  "convolutions ls = filter (\<lambda>l. kind_of l = Convolution) ls"

text \<open>
  The two operands of the elementwise addition under a block's final activation: the main
  branch and the shortcut.
\<close>

definition main_of :: "tensor \<Rightarrow> tensor option" where
  "main_of t = (case t of Call relu [Call add [y, shortcut]] \<Rightarrow> Some y | _ \<Rightarrow> None)"

definition shortcut_of :: "tensor \<Rightarrow> tensor option" where
  "shortcut_of t = (case t of Call relu [Call add [y, shortcut]] \<Rightarrow> Some shortcut | _ \<Rightarrow> None)"

text \<open>
  \<open>strided_block s block x t\<close>: in the block output \<open>t\<close> built over the input \<open>x\<close>, the
  first convolution of the main branch has stride \<open>s\<close>, and so has the projection on
  the shortcut of a block 0; any other block's shortcut is \<open>x\<close> itself.
\<close>

definition strided_block :: "int \<Rightarrow> int \<Rightarrow> tensor \<Rightarrow> tensor \<Rightarrow> bool" where
  "strided_block s block x t =
     (case t of
        Call relu [Call add [y, shortcut]] \<Rightarrow>
          (case stack_over x y of
             None \<Rightarrow> False
           | Some main \<Rightarrow>
               map conv_strides (take 1 (convolutions main)) = [Some s] \<and>
               (if block = 0 then
                  (case stack_over x shortcut of
                     None \<Rightarrow> False
                   | Some projection \<Rightarrow> map conv_strides (convolutions projection) = [Some s])
                else shortcut = x))
      | _ \<Rightarrow> False)"

text \<open>
  \<open>residual_output x t\<close>: \<open>t\<close> is a ReLU activation of an elementwise addition of two
  tensors, the first a non-empty stack of padding, convolution, normalisation and ReLU
  layers over \<open>x\<close> that holds each of the last three kinds, the second \<open>x\<close> itself or a
  stack of convolution and normalisation layers over \<open>x\<close>.
\<close>

definition residual_output :: "tensor \<Rightarrow> tensor \<Rightarrow> bool" where
  "residual_output x t =
     (case t of
        Call relu [Call add [y, shortcut]] \<Rightarrow>
          kind_of relu = Relu \<and> kind_of add = Addition \<and>
          (case stack_over x y of
             None \<Rightarrow> False
           | Some main \<Rightarrow>
               set (map kind_of main) \<subseteq> {Padding, Convolution, Normalization, Relu} \<and>
               {Convolution, Normalization, Relu} \<subseteq> set (map kind_of main)) \<and>
          (case stack_over x shortcut of
             None \<Rightarrow> False
           | Some projection \<Rightarrow> set (map kind_of projection) \<subseteq> {Convolution, Normalization})
      | _ \<Rightarrow> False)"







text \<open>
  The residual stages as the properties describe them, with no running \<open>features\<close>
  variable: stage \<open>i\<close> calls \<open>block\<close> once for each block id of the stage, every time
  with the filters value \<open>64 * 2 ^ i\<close>, stage \<open>i\<close>, the block id, the flag
  \<open>block_id > 0 and names[i]\<close> and \<open>freeze_bn\<close>, and applies what \<open>block\<close> returns to
  the current tensor; the tensor at the end of each stage is appended to the outputs.
  The flag needs \<open>names[i]\<close> only for a block id above 0, and raises if the list is too
  short then.
\<close>

fun described_blocks ::
  "block_fn \<Rightarrow> int \<Rightarrow> bool list \<Rightarrow> bool \<Rightarrow> nat \<Rightarrow> int list \<Rightarrow> tensor \<Rightarrow> py_error + tensor" where
  "described_blocks block filters names freeze_bn i [] x = Inr x"
| "described_blocks block filters names freeze_bn i (j # js) x =
     (if j > 0 \<and> length names \<le> i then Inl IndexError
      else (case block filters (int i) j (j > 0 \<and> names ! i) freeze_bn of
              Inl e \<Rightarrow> Inl e
            | Inr f \<Rightarrow> described_blocks block filters names freeze_bn i js (f x)))"

fun described_stages ::
  "block_fn \<Rightarrow> bool list \<Rightarrow> bool \<Rightarrow> nat \<Rightarrow> int list \<Rightarrow> tensor \<Rightarrow> tensor list
     \<Rightarrow> py_error + tensor \<times> tensor list" where
  "described_stages block names freeze_bn i [] x outputs = Inr (x, outputs)"
| "described_stages block names freeze_bn i (n # rest) x outputs =
     (case described_blocks block (64 * 2 ^ i) names freeze_bn i (map int [0 ..< nat n]) x of
        Inl e \<Rightarrow> Inl e
      | Inr x' \<Rightarrow> described_stages block names freeze_bn (Suc i) rest x' (outputs @ [x']))"

section \<open>Properties\<close>

subsection \<open>Reading graphs\<close>

lemma tensor_neq_by_size: "size x < size t \<Longrightarrow> (t = x) = False" for x t :: tensor
  by auto

lemma stack_over_refl: "stack_over x x = Some []"
  by (cases "(x, x)" rule: stack_over.cases) auto

lemma new_layers_refl: "new_layers x x = []"
  by (cases x) auto

lemmas graph_simps = tensor_neq_by_size stack_over_refl new_layers_refl

subsection \<open>What the block builders return\<close>

lemma basic_1d_Inr:
  "basic_1d fmt filters stage block kernel_size numerical_name stride freeze_bn = Inr f \<Longrightarrow>
   \<exists>block_char. basic_1d_block_char block numerical_name = Inr block_char \<and>
     f = basic_1d_f filters block kernel_size (basic_1d_stride stride stage block) freeze_bn
           (axis_1d fmt) (basic_1d_stage_char stage) block_char"
  by (auto simp: basic_1d_def Let_def split: sum.splits)

lemma bottleneck_1d_Inr:
  "bottleneck_1d fmt filters stage block kernel_size numerical_name stride freeze_bn = Inr f \<Longrightarrow>
   \<exists>block_char. bottleneck_1d_block_char block numerical_name = Inr block_char \<and>
     f = bottleneck_1d_f filters block kernel_size (bottleneck_1d_stride stride stage block)
           freeze_bn (axis_1d fmt) (bottleneck_1d_stage_char stage) block_char"
  by (auto simp: bottleneck_1d_def Let_def split: sum.splits)

text \<open>
  A builder returns a block function unless \<open>chr\<close> raises on the block character:
  with numerical naming for every block above 0, without it for every block whose
  character \<open>chr(97 + block)\<close> exists.
\<close>

lemma block_builders_return:
  "((\<exists>f. basic_1d fmt filters stage block kernel_size numerical_name stride freeze_bn = Inr f)
      \<longleftrightarrow> (block > 0 \<and> numerical_name) \<or> (- 97 \<le> block \<and> block < 1114015)) \<and>
   ((\<exists>g. bottleneck_1d fmt filters stage block kernel_size numerical_name stride freeze_bn
        = Inr g)
      \<longleftrightarrow> (block > 0 \<and> numerical_name) \<or> (- 97 \<le> block \<and> block < 1114015))"
  by (auto simp: basic_1d_def bottleneck_1d_def basic_1d_block_char_def
      bottleneck_1d_block_char_def py_chr_def ord_a_def Let_def split: sum.splits if_splits)

subsection \<open>The block-count tables of the named variants\<close>

text \<open>
  C1. Called without \<open>residual_blocks\<close>, each named variant is \<open>ResNet2D\<close> on its own
  fixed table of blocks per stage: 18 on [2, 2, 2, 2], 34 and 50 on [3, 4, 6, 3], 101 on
  [3, 4, 23, 3], 152 on [3, 8, 36, 3] and 200 on [3, 24, 36, 3]. The variants 18 and 34
  pass the basic block builder, the variants 50, 101, 152 and 200 the bottleneck block
  builder.
\<close>

theorem variant_block_tables:
  "ResNet2D18 blocks fmt inputs None include_top classes freeze_bn =
     ResNet2D fmt inputs [2, 2, 2, 2] (basic_2d blocks) include_top classes freeze_bn None \<and>
   ResNet2D34 blocks fmt inputs None include_top classes freeze_bn =
     ResNet2D fmt inputs [3, 4, 6, 3] (basic_2d blocks) include_top classes freeze_bn None \<and>
   ResNet2D50 blocks fmt inputs None include_top classes freeze_bn =
     ResNet2D fmt inputs [3, 4, 6, 3] (bottleneck_2d blocks) include_top classes freeze_bn
       (Some [False, False, False, False]) \<and>
   ResNet2D101 blocks fmt inputs None include_top classes freeze_bn =
     ResNet2D fmt inputs [3, 4, 23, 3] (bottleneck_2d blocks) include_top classes freeze_bn
       (Some [False, True, True, False]) \<and>
   ResNet2D152 blocks fmt inputs None include_top classes freeze_bn =
     ResNet2D fmt inputs [3, 8, 36, 3] (bottleneck_2d blocks) include_top classes freeze_bn
       (Some [False, True, True, False]) \<and>
   ResNet2D200 blocks fmt inputs None include_top classes freeze_bn =
     ResNet2D fmt inputs [3, 24, 36, 3] (bottleneck_2d blocks) include_top classes freeze_bn
       (Some [False, True, True, False])"
  by (simp add: ResNet2D18_def ResNet2D34_def ResNet2D50_def ResNet2D101_def ResNet2D152_def
      ResNet2D200_def)

subsection \<open>Stride placement\<close>

lemma basic_1d_f_strided:
  "strided_block s block x
     (basic_1d_f filters block kernel_size s freeze_bn axis stage_char block_char x)"
  by (simp add: strided_block_def basic_1d_f_def Let_def graph_simps convolutions_def)

lemma bottleneck_1d_f_strided:
  "strided_block s block x
     (bottleneck_1d_f filters block kernel_size s freeze_bn axis stage_char block_char x)"
  by (simp add: strided_block_def bottleneck_1d_f_def Let_def graph_simps convolutions_def)

text \<open>
  C2. A block built by \<open>basic_1d\<close> or \<open>bottleneck_1d\<close> with \<open>stride=None\<close> has the
  derived stride 1 when \<open>block \<noteq> 0\<close> or \<open>stage = 0\<close> and 2 otherwise, so the stride is 2
  exactly for block 0 of a stage other than stage 0 (stages are numbered from 0). The
  derived stride is the stride of the first convolution of the main branch and, in a
  block 0, of the projection on the shortcut.
\<close>

theorem default_stride_1d:
  "(basic_1d fmt filters stage block kernel_size numerical_name None freeze_bn = Inr f \<longrightarrow>
      basic_1d_stride None stage block = (if block \<noteq> 0 \<or> stage = 0 then 1 else 2) \<and>
      strided_block (if block \<noteq> 0 \<or> stage = 0 then 1 else 2) block x (f x)) \<and>
   (bottleneck_1d fmt filters stage block kernel_size numerical_name None freeze_bn = Inr g \<longrightarrow>
      bottleneck_1d_stride None stage block = (if block \<noteq> 0 \<or> stage = 0 then 1 else 2) \<and>
      strided_block (if block \<noteq> 0 \<or> stage = 0 then 1 else 2) block x (g x)) \<and>
   ((if block \<noteq> 0 \<or> stage = 0 then 1 else 2) = (2 :: int) \<longleftrightarrow> block = 0 \<and> stage \<noteq> 0)"
proof (intro conjI impI)
  assume "basic_1d fmt filters stage block kernel_size numerical_name None freeze_bn = Inr f"
  from basic_1d_Inr [OF this] obtain block_char where
    f: "f = basic_1d_f filters block kernel_size (basic_1d_stride None stage block) freeze_bn
           (axis_1d fmt) (basic_1d_stage_char stage) block_char"
    by blast
  have s: "basic_1d_stride None stage block = (if block \<noteq> 0 \<or> stage = 0 then 1 else 2)"
    by (simp add: basic_1d_stride_def)
  show "basic_1d_stride None stage block = (if block \<noteq> 0 \<or> stage = 0 then 1 else 2)"
    by (rule s)
  show "strided_block (if block \<noteq> 0 \<or> stage = 0 then 1 else 2) block x (f x)"
    unfolding f s by (rule basic_1d_f_strided)
next
  assume "bottleneck_1d fmt filters stage block kernel_size numerical_name None freeze_bn = Inr g"
  from bottleneck_1d_Inr [OF this] obtain block_char where
    g: "g = bottleneck_1d_f filters block kernel_size (bottleneck_1d_stride None stage block)
           freeze_bn (axis_1d fmt) (bottleneck_1d_stage_char stage) block_char"
    by blast
  have s: "bottleneck_1d_stride None stage block = (if block \<noteq> 0 \<or> stage = 0 then 1 else 2)"
    by (simp add: bottleneck_1d_stride_def)
  show "bottleneck_1d_stride None stage block = (if block \<noteq> 0 \<or> stage = 0 then 1 else 2)"
    by (rule s)
  show "strided_block (if block \<noteq> 0 \<or> stage = 0 then 1 else 2) block x (g x)"
    unfolding g s by (rule bottleneck_1d_f_strided)
next
  show "((if block \<noteq> 0 \<or> stage = 0 then 1 else 2) = (2 :: int)) = (block = 0 \<and> stage \<noteq> 0)"
    by simp
qed

text \<open>
  The first block of stage 1, as both builders make it: the block character is \<open>a\<close>, the
  stage character \<open>3\<close>, the stride 2.
\<close>

lemma basic_1d_stage1_block0:
  "basic_1d channels_last 64 1 0 3 False None False =
     Inr (basic_1d_f 64 0 3 2 False (- 1) (lit ''3'') (lit ''a''))"
  by (simp add: basic_1d_def basic_1d_stride_def axis_1d_def basic_1d_block_char_def
      py_chr_def ord_a_def basic_1d_stage_char_def str_int_def str_nat.simps lit_def)

lemma bottleneck_1d_stage1_block0:
  "bottleneck_1d channels_last 64 1 0 3 False None False =
     Inr (bottleneck_1d_f 64 0 3 2 False (- 1) (lit ''3'') (lit ''a''))"
  by (simp add: bottleneck_1d_def bottleneck_1d_stride_def axis_1d_def
      bottleneck_1d_block_char_def py_chr_def ord_a_def bottleneck_1d_stage_char_def
      str_int_def str_nat.simps lit_def)

theorem default_stride_1d_witness:
  "basic_1d channels_last 64 1 0 3 False None False =
     Inr (basic_1d_f 64 0 3 2 False (- 1) (lit ''3'') (lit ''a'')) \<and>
   basic_1d_stride None 1 0 = 2 \<and>
   strided_block 2 0 (Input 0) (basic_1d_f 64 0 3 2 False (- 1) (lit ''3'') (lit ''a'') (Input 0)) \<and>
   bottleneck_1d channels_last 64 1 0 3 False None False =
     Inr (bottleneck_1d_f 64 0 3 2 False (- 1) (lit ''3'') (lit ''a'')) \<and>
   bottleneck_1d_stride None 1 0 = 2 \<and>
   strided_block 2 0 (Input 0)
     (bottleneck_1d_f 64 0 3 2 False (- 1) (lit ''3'') (lit ''a'') (Input 0))"
  using basic_1d_stage1_block0 bottleneck_1d_stage1_block0
    default_stride_1d [of channels_last 64 1 0 3 False False
      "basic_1d_f 64 0 3 2 False (- 1) (lit ''3'') (lit ''a'')" "Input 0"
      "bottleneck_1d_f 64 0 3 2 False (- 1) (lit ''3'') (lit ''a'')"]
  by simp

subsection \<open>The shortcut\<close>

lemma basic_1d_f_shortcut:
  "shortcut_of (basic_1d_f filters block kernel_size s freeze_bn axis stage_char block_char x) =
     Some (if block = 0 then
             Call (BatchNormalization axis (1, - 5) freeze_bn
                     (format2 ''bn'' ''_branch1'' stage_char block_char))
               [Call (Conv1D filters 1 (Some s) False
                        (format2 ''res'' ''_branch1'' stage_char block_char) parameters) [x]]
           else x)"
  by (simp add: shortcut_of_def basic_1d_f_def Let_def)

lemma bottleneck_1d_f_shortcut:
  "shortcut_of
     (bottleneck_1d_f filters block kernel_size s freeze_bn axis stage_char block_char x) =
     Some (if block = 0 then
             Call (BatchNormalization axis (1, - 5) freeze_bn
                     (format2 ''bn'' ''_branch1'' stage_char block_char))
               [Call (Conv1D (filters * 4) 1 (Some s) False
                        (format2 ''res'' ''_branch1'' stage_char block_char) parameters) [x]]
           else x)"
  by (simp add: shortcut_of_def bottleneck_1d_f_def Let_def)

lemma bottleneck_1d_f_main_filters:
  "\<exists>y main.
     main_of (bottleneck_1d_f filters block kernel_size s freeze_bn axis stage_char block_char x)
       = Some y \<and>
     stack_over x y = Some main \<and>
     map conv_filters (convolutions main) = [Some filters, Some filters, Some (filters * 4)]"
  by (simp add: main_of_def bottleneck_1d_f_def Let_def graph_simps convolutions_def)

text \<open>
  C3. In a block built by \<open>basic_1d\<close> or \<open>bottleneck_1d\<close>, the shortcut operand of the
  addition is, for block 0, the batch normalisation \<open>bn{stage}{block}_branch1\<close> of the
  width-1 convolution \<open>res{stage}{block}_branch1\<close> of the block input, and for any other
  block the block input itself; so the projection is there if and only if the block is
  block 0. The projection of \<open>bottleneck_1d\<close> has \<open>filters * 4\<close> output channels, as has
  the last convolution of its main branch.
\<close>

theorem projection_shortcut_1d:
  "(basic_1d fmt filters stage block kernel_size numerical_name stride freeze_bn = Inr f \<longrightarrow>
      (\<exists>block_char. basic_1d_block_char block numerical_name = Inr block_char \<and>
         shortcut_of (f x) =
           Some (if block = 0 then
                   Call (BatchNormalization (axis_1d fmt) (1, - 5) freeze_bn
                           (format2 ''bn'' ''_branch1'' (basic_1d_stage_char stage) block_char))
                     [Call (Conv1D filters 1 (Some (basic_1d_stride stride stage block)) False
                              (format2 ''res'' ''_branch1'' (basic_1d_stage_char stage) block_char)
                              parameters) [x]]
                 else x)) \<and>
      (shortcut_of (f x) = Some x \<longleftrightarrow> block \<noteq> 0)) \<and>
   (bottleneck_1d fmt filters stage block kernel_size numerical_name stride freeze_bn = Inr g \<longrightarrow>
      (\<exists>block_char. bottleneck_1d_block_char block numerical_name = Inr block_char \<and>
         shortcut_of (g x) =
           Some (if block = 0 then
                   Call (BatchNormalization (axis_1d fmt) (1, - 5) freeze_bn
                           (format2 ''bn'' ''_branch1'' (bottleneck_1d_stage_char stage)
                              block_char))
                     [Call (Conv1D (filters * 4) 1
                              (Some (bottleneck_1d_stride stride stage block)) False
                              (format2 ''res'' ''_branch1'' (bottleneck_1d_stage_char stage)
                                 block_char)
                              parameters) [x]]
                 else x)) \<and>
      (shortcut_of (g x) = Some x \<longleftrightarrow> block \<noteq> 0) \<and>
      (\<exists>y main. main_of (g x) = Some y \<and> stack_over x y = Some main \<and>
         conv_filters (last (convolutions main)) = Some (filters * 4)))"
proof (intro conjI impI)
  assume "basic_1d fmt filters stage block kernel_size numerical_name stride freeze_bn = Inr f"
  from basic_1d_Inr [OF this] obtain block_char where
    c: "basic_1d_block_char block numerical_name = Inr block_char" and
    f: "f = basic_1d_f filters block kernel_size (basic_1d_stride stride stage block) freeze_bn
           (axis_1d fmt) (basic_1d_stage_char stage) block_char"
    by blast
  show "\<exists>block_char. basic_1d_block_char block numerical_name = Inr block_char \<and>
         shortcut_of (f x) =
           Some (if block = 0 then
                   Call (BatchNormalization (axis_1d fmt) (1, - 5) freeze_bn
                           (format2 ''bn'' ''_branch1'' (basic_1d_stage_char stage) block_char))
                     [Call (Conv1D filters 1 (Some (basic_1d_stride stride stage block)) False
                              (format2 ''res'' ''_branch1'' (basic_1d_stage_char stage) block_char)
                              parameters) [x]]
                 else x)"
    using c by (simp add: f basic_1d_f_shortcut)
  show "shortcut_of (f x) = Some x \<longleftrightarrow> block \<noteq> 0"
    by (simp add: f basic_1d_f_shortcut tensor_neq_by_size)
next
  assume "bottleneck_1d fmt filters stage block kernel_size numerical_name stride freeze_bn = Inr g"
  from bottleneck_1d_Inr [OF this] obtain block_char where
    c: "bottleneck_1d_block_char block numerical_name = Inr block_char" and
    g: "g = bottleneck_1d_f filters block kernel_size (bottleneck_1d_stride stride stage block)
           freeze_bn (axis_1d fmt) (bottleneck_1d_stage_char stage) block_char"
    by blast
  show "\<exists>block_char. bottleneck_1d_block_char block numerical_name = Inr block_char \<and>
         shortcut_of (g x) =
           Some (if block = 0 then
                   Call (BatchNormalization (axis_1d fmt) (1, - 5) freeze_bn
                           (format2 ''bn'' ''_branch1'' (bottleneck_1d_stage_char stage)
                              block_char))
                     [Call (Conv1D (filters * 4) 1
                              (Some (bottleneck_1d_stride stride stage block)) False
                              (format2 ''res'' ''_branch1'' (bottleneck_1d_stage_char stage)
                                 block_char)
                              parameters) [x]]
                 else x)"
    using c by (simp add: g bottleneck_1d_f_shortcut)
  show "shortcut_of (g x) = Some x \<longleftrightarrow> block \<noteq> 0"
    by (simp add: g bottleneck_1d_f_shortcut tensor_neq_by_size)
  from bottleneck_1d_f_main_filters [of filters block kernel_size
      "bottleneck_1d_stride stride stage block" freeze_bn "axis_1d fmt"
      "bottleneck_1d_stage_char stage" block_char x]
  show "\<exists>y main. main_of (g x) = Some y \<and> stack_over x y = Some main \<and>
         conv_filters (last (convolutions main)) = Some (filters * 4)"
    unfolding g by auto
qed

theorem projection_shortcut_1d_witness:
  "basic_1d channels_last 64 1 0 3 False None False =
     Inr (basic_1d_f 64 0 3 2 False (- 1) (lit ''3'') (lit ''a'')) \<and>
   shortcut_of (basic_1d_f 64 0 3 2 False (- 1) (lit ''3'') (lit ''a'') (Input 0)) =
     Some (Call (BatchNormalization (- 1) (1, - 5) False (lit ''bn3a_branch1''))
             [Call (Conv1D 64 1 (Some 2) False (lit ''res3a_branch1'') (lit ''he_normal''))
                [Input 0]]) \<and>
   bottleneck_1d channels_last 64 1 0 3 False None False =
     Inr (bottleneck_1d_f 64 0 3 2 False (- 1) (lit ''3'') (lit ''a'')) \<and>
   shortcut_of (bottleneck_1d_f 64 0 3 2 False (- 1) (lit ''3'') (lit ''a'') (Input 0)) =
     Some (Call (BatchNormalization (- 1) (1, - 5) False (lit ''bn3a_branch1''))
             [Call (Conv1D 256 1 (Some 2) False (lit ''res3a_branch1'') (lit ''he_normal''))
                [Input 0]]) \<and>
   (\<exists>y main.
      main_of (bottleneck_1d_f 64 0 3 2 False (- 1) (lit ''3'') (lit ''a'') (Input 0)) = Some y \<and>
      stack_over (Input 0) y = Some main \<and>
      conv_filters (last (convolutions main)) = Some 256)"
  using basic_1d_stage1_block0 bottleneck_1d_stage1_block0
    projection_shortcut_1d [of channels_last 64 1 0 3 False None False
      "basic_1d_f 64 0 3 2 False (- 1) (lit ''3'') (lit ''a'')" "Input 0"
      "bottleneck_1d_f 64 0 3 2 False (- 1) (lit ''3'') (lit ''a'')"]
  by (simp add: basic_1d_block_char_def bottleneck_1d_block_char_def py_chr_def ord_a_def
      basic_1d_stage_char_def bottleneck_1d_stage_char_def basic_1d_stride_def
      bottleneck_1d_stride_def axis_1d_def str_int_def str_nat.simps format2_def lit_def
      parameters_def)

subsection \<open>Add, then ReLU\<close>

lemma basic_1d_f_residual:
  "residual_output x
     (basic_1d_f filters block kernel_size s freeze_bn axis stage_char block_char x)"
  by (simp add: residual_output_def basic_1d_f_def Let_def graph_simps)

lemma bottleneck_1d_f_residual:
  "residual_output x
     (bottleneck_1d_f filters block kernel_size s freeze_bn axis stage_char block_char x)"
  by (simp add: residual_output_def bottleneck_1d_f_def Let_def graph_simps)

text \<open>
  C6. Whatever tensor a block built by \<open>basic_1d\<close> or \<open>bottleneck_1d\<close> is applied to, the
  tensor it returns is a ReLU activation of the elementwise addition of the main branch,
  a stack of convolution, batch-normalisation and activation layers (with the zero
  paddings in front of its convolutions) over the block input, and the shortcut.
\<close>

theorem blocks_add_then_relu:
  "(basic_1d fmt filters stage block kernel_size numerical_name stride freeze_bn = Inr f \<longrightarrow>
      residual_output x (f x)) \<and>
   (bottleneck_1d fmt filters stage block kernel_size numerical_name stride freeze_bn = Inr g \<longrightarrow>
      residual_output x (g x))"
  by (auto dest!: basic_1d_Inr bottleneck_1d_Inr
      simp: basic_1d_f_residual bottleneck_1d_f_residual)

theorem blocks_add_then_relu_witness:
  "basic_1d channels_last 64 1 0 3 False None False =
     Inr (basic_1d_f 64 0 3 2 False (- 1) (lit ''3'') (lit ''a'')) \<and>
   residual_output (Input 0) (basic_1d_f 64 0 3 2 False (- 1) (lit ''3'') (lit ''a'') (Input 0)) \<and>
   bottleneck_1d channels_last 64 1 0 3 False None False =
     Inr (bottleneck_1d_f 64 0 3 2 False (- 1) (lit ''3'') (lit ''a'')) \<and>
   residual_output (Input 0)
     (bottleneck_1d_f 64 0 3 2 False (- 1) (lit ''3'') (lit ''a'') (Input 0))"
  using basic_1d_stage1_block0 bottleneck_1d_stage1_block0
    blocks_add_then_relu [of channels_last 64 1 0 3 False None False
      "basic_1d_f 64 0 3 2 False (- 1) (lit ''3'') (lit ''a'')" "Input 0"
      "bottleneck_1d_f 64 0 3 2 False (- 1) (lit ''3'') (lit ''a'')"]
  by simp

subsection \<open>The two builders derive the same values\<close>

text \<open>
  C10. For every stage, block and \<open>numerical_name\<close>, with \<open>stride=None\<close>, \<open>basic_1d\<close>
  and \<open>bottleneck_1d\<close> derive the same stride, the same block character (or raise the
  same error) and the same stage character; so one returns a block exactly when the
  other does.
\<close>

theorem derivations_agree_1d:
  "basic_1d_stride None stage block = bottleneck_1d_stride None stage block \<and>
   basic_1d_block_char block numerical_name = bottleneck_1d_block_char block numerical_name \<and>
   basic_1d_stage_char stage = bottleneck_1d_stage_char stage \<and>
   ((\<exists>f. basic_1d fmt filters stage block kernel_size numerical_name None freeze_bn = Inr f)
      \<longleftrightarrow>
    (\<exists>g. bottleneck_1d fmt filters' stage block kernel_size' numerical_name None freeze_bn'
       = Inr g))"
  by (simp add: basic_1d_stride_def bottleneck_1d_stride_def basic_1d_block_char_def
      bottleneck_1d_block_char_def basic_1d_stage_char_def bottleneck_1d_stage_char_def
      basic_1d_def bottleneck_1d_def Let_def split: sum.splits)

text \<open>
  The first block of stage 1 again: both builders derive stride 2, block character \<open>a\<close>
  and stage character \<open>3\<close>, and both return a block.
\<close>

theorem derivations_agree_1d_witness:
  "basic_1d_stride None 1 0 = 2 \<and> bottleneck_1d_stride None 1 0 = 2 \<and>
   basic_1d_block_char 0 False = Inr (lit ''a'') \<and>
   bottleneck_1d_block_char 0 False = Inr (lit ''a'') \<and>
   basic_1d_stage_char 1 = lit ''3'' \<and> bottleneck_1d_stage_char 1 = lit ''3'' \<and>
   (\<exists>f. basic_1d channels_last 64 1 0 3 False None False = Inr f) \<and>
   (\<exists>g. bottleneck_1d channels_last 64 1 0 3 False None False = Inr g)"
proof -
  have "basic_1d_stride None 1 0 = 2" "basic_1d_block_char 0 False = Inr (lit ''a'')"
    "basic_1d_stage_char 1 = lit ''3''"
    by (simp_all add: basic_1d_stride_def basic_1d_block_char_def py_chr_def ord_a_def
        basic_1d_stage_char_def str_int_def str_nat.simps lit_def)
  moreover have "\<exists>f. basic_1d channels_last 64 1 0 3 False None False = Inr f"
    using basic_1d_stage1_block0 by blast
  ultimately show ?thesis
    using derivations_agree_1d [of 1 0 False channels_last 64 3 False 64 3 False]
    by simp
qed

subsection \<open>Layer names\<close>

















section \<open>Properties of the models\<close>

subsection \<open>Concrete instances\<close>

lemma py_range_2: "py_range 2 = [0, 1]" and py_range_1: "py_range 1 = [0]"
  and py_range_0: "py_range 0 = []"
  by (simp_all add: py_range_def upt_rec)

lemmas example_simps =
  ResNet2D_def ResNet2D_calls_def default_numerical_names_def py_enumerate_def
  py_range_2 py_range_1 py_range_0 numerical_name_arg_def py_index_def relu_block_def
  axis_2d_def Let_def

lemma example_calls:
  "ResNet2D_calls channels_last (Input 0) [2, 1] relu_block True None =
     [\<lparr>call_features = 64, call_stage = 0, call_block = 0, call_numerical_name = False,
        call_freeze_bn = True\<rparr>,
      \<lparr>call_features = 64, call_stage = 0, call_block = 1, call_numerical_name = True,
        call_freeze_bn = True\<rparr>,
      \<lparr>call_features = 128, call_stage = 1, call_block = 0, call_numerical_name = False,
        call_freeze_bn = True\<rparr>]"
  by (simp add: example_simps)

lemma example_stages:
  "ResNet2D channels_last (Input 0) [1] relu_block False 0 True None =
     Inr \<lparr>model_inputs = Input 0,
          model_outputs =
            Listed [Call (Activation (lit ''relu'') (lit ''stage00_relu''))
                      [stem 3 True (Input 0)]]\<rparr>"
  by (simp add: example_simps format2_def str_int_def str_nat.simps lit_def)

lemma example_two_stages:
  "ResNet2D channels_last (Input 0) [1, 0] relu_block False 1000 True None =
     Inr \<lparr>model_inputs = Input 0,
          model_outputs =
            Listed [Call (Activation (lit ''relu'') (lit ''stage00_relu''))
                      [stem 3 True (Input 0)],
                    Call (Activation (lit ''relu'') (lit ''stage00_relu''))
                      [stem 3 True (Input 0)]]\<rparr>"
  by (simp add: example_simps format2_def str_int_def str_nat.simps lit_def)

lemma described_example:
  "described_stages relu_block [True, True] True 0 [2, 1] (stem 3 True (Input 0)) [] =
     Inr (Call (Activation (lit ''relu'') (lit ''stage10_relu''))
            [Call (Activation (lit ''relu'') (lit ''stage01_relu''))
               [Call (Activation (lit ''relu'') (lit ''stage00_relu''))
                  [stem 3 True (Input 0)]]],
          [Call (Activation (lit ''relu'') (lit ''stage01_relu''))
             [Call (Activation (lit ''relu'') (lit ''stage00_relu''))
                [stem 3 True (Input 0)]],
           Call (Activation (lit ''relu'') (lit ''stage10_relu''))
             [Call (Activation (lit ''relu'') (lit ''stage01_relu''))
                [Call (Activation (lit ''relu'') (lit ''stage00_relu''))
                   [stem 3 True (Input 0)]]]])"
  by (simp add: upt_rec relu_block_def format2_def str_int_def str_nat.simps lit_def)

subsection \<open>The arguments of every block call\<close>

lemma block_loop_calls_args:
  "c \<in> set (block_loop_calls block features stage_id numerical_names freeze_bn ids x) \<Longrightarrow>
   call_features c = features \<and> call_stage c = stage_id \<and> call_freeze_bn c = freeze_bn \<and>
   call_block c \<in> set ids \<and>
   numerical_name_arg numerical_names stage_id (call_block c) = Inr (call_numerical_name c)"
  by (induction ids arbitrary: x) (auto split: sum.splits)

lemma stage_loop_calls_args:
  "0 \<le> start \<Longrightarrow>
   c \<in> set (stage_loop_calls block numerical_names freeze_bn (enumerate_from start rb)
              (64 * 2 ^ nat start) x) \<Longrightarrow>
   call_features c = 64 * 2 ^ nat (call_stage c) \<and> start \<le> call_stage c \<and>
   call_stage c < start + int (length rb) \<and> call_freeze_bn c = freeze_bn \<and>
   numerical_name_arg numerical_names (call_stage c) (call_block c) =
     Inr (call_numerical_name c)"
proof (induction rb arbitrary: start x)
  case Nil
  then show ?case by simp
next
  case (Cons n rb)
  have next_features: "64 * 2 ^ nat start * 2 = (64 :: int) * 2 ^ nat (start + 1)"
    using Cons.prems(1) by (simp add: nat_add_distrib)
  from Cons.prems(2) consider
    (here) "c \<in> set (block_loop_calls block (64 * 2 ^ nat start) start numerical_names
                freeze_bn (py_range n) x)"
  | (later) x' where
      "c \<in> set (stage_loop_calls block numerical_names freeze_bn
                 (enumerate_from (start + 1) rb) (64 * 2 ^ nat (start + 1)) x')"
    by (auto simp: next_features split: sum.splits)
  then show ?case
  proof cases
    case here
    from block_loop_calls_args [OF here] show ?thesis by simp
  next
    case later
    from Cons.IH [OF _ later] Cons.prems(1) show ?thesis by simp
  qed
qed

lemma ResNet2D_calls_args:
  assumes "c \<in> set (ResNet2D_calls fmt inputs residual_blocks block freeze_bn numerical_names)"
  shows "call_features c = 64 * 2 ^ nat (call_stage c)"
    and "0 \<le> call_stage c" and "call_stage c < int (length residual_blocks)"
    and "call_freeze_bn c = freeze_bn"
    and "numerical_name_arg (default_numerical_names numerical_names residual_blocks)
           (call_stage c) (call_block c) = Inr (call_numerical_name c)"
  using stage_loop_calls_args [of 0 c block
      "default_numerical_names numerical_names residual_blocks" freeze_bn residual_blocks
      "stem (axis_2d fmt) freeze_bn inputs"] assms
  by (simp_all add: ResNet2D_calls_def py_enumerate_def)

lemma py_index_in_range:
  "py_index xs i = Inr v \<Longrightarrow> 0 \<le> i \<Longrightarrow> v = xs ! nat i \<and> i < int (length xs)"
  by (auto simp: py_index_def split: if_splits)

text \<open>
  The listed calls are the ones that build the result: when the loops end without an
  error, replaying the calls on the tensor the loops started from gives the tensor they
  end with.
\<close>

lemma replay_append:
  "replay block (cs @ ds) x =
     (case replay block cs x of Inl e \<Rightarrow> Inl e | Inr y \<Rightarrow> replay block ds y)"
  by (induction cs arbitrary: x) (auto split: sum.splits)

lemma block_loop_replay:
  "block_loop block features stage_id numerical_names freeze_bn ids x = Inr y \<Longrightarrow>
   replay block (block_loop_calls block features stage_id numerical_names freeze_bn ids x) x
     = Inr y"
proof (induction ids arbitrary: x)
  case Nil
  then show ?case by simp
next
  case (Cons block_id ids)
  from Cons.prems obtain flag f where
    flag: "numerical_name_arg numerical_names stage_id block_id = Inr flag" and
    f: "block features stage_id block_id flag freeze_bn = Inr f" and
    rest: "block_loop block features stage_id numerical_names freeze_bn ids (f x) = Inr y"
    by (auto split: sum.splits)
  from Cons.IH [OF rest] flag f show ?case by simp
qed

lemma stage_loop_replay:
  "stage_loop block numerical_names freeze_bn stages features x outputs = Inr (x', outputs') \<Longrightarrow>
   replay block (stage_loop_calls block numerical_names freeze_bn stages features x) x = Inr x'"
proof (induction stages arbitrary: features x outputs)
  case Nil
  then show ?case by simp
next
  case (Cons stage stages)
  obtain stage_id iterations where stage: "stage = (stage_id, iterations)"
    by (cases stage)
  from Cons.prems obtain y where
    y: "block_loop block features stage_id numerical_names freeze_bn (py_range iterations) x
          = Inr y" and
    rest: "stage_loop block numerical_names freeze_bn stages (features * 2) y (outputs @ [y])
          = Inr (x', outputs')"
    by (auto simp: stage split: sum.splits)
  from Cons.IH [OF rest] block_loop_replay [OF y] y show ?case
    by (simp add: stage replay_append)
qed

text \<open>
  The loops of the source, with their running \<open>features\<close> variable and their flag
  expression, do what the described stages do.
\<close>

lemma numerical_name_arg_described:
  "numerical_name_arg names (int i) j =
     (if j > 0 \<and> length names \<le> i then Inl IndexError else Inr (j > 0 \<and> names ! i))"
  by (simp add: numerical_name_arg_def py_index_def)

lemma block_loop_described:
  "block_loop block features (int i) names freeze_bn ids x =
     described_blocks block features names freeze_bn i ids x"
  by (induction ids arbitrary: x) (simp_all add: numerical_name_arg_described split: sum.splits)

lemma stage_loop_described:
  "stage_loop block names freeze_bn (enumerate_from (int i) rb) (64 * 2 ^ i) x outputs =
     described_stages block names freeze_bn i rb x outputs"
proof (induction rb arbitrary: i x outputs)
  case Nil
  show ?case by simp
next
  case (Cons n rb)
  have f: "(64 :: int) * 2 ^ i * 2 = 64 * 2 ^ Suc i" by simp
  have s: "int i + 1 = int (Suc i)" by simp
  show ?case
  proof (cases "described_blocks block (64 * 2 ^ i) names freeze_bn i (map int [0 ..< nat n]) x")
    case (Inl e)
    then show ?thesis
      by (simp only: enumerate_from.simps stage_loop.simps block_loop_described py_range_def
          sum.case described_stages.simps)
  next
    case (Inr x')
    then show ?thesis
      by (simp only: enumerate_from.simps stage_loop.simps block_loop_described py_range_def
          sum.case described_stages.simps f s Cons.IH)
  qed
qed

lemma ResNet2D_described:
  "ResNet2D fmt inputs residual_blocks block include_top classes freeze_bn numerical_names =
     (case described_stages block
             (default_numerical_names numerical_names residual_blocks) freeze_bn 0
             residual_blocks (stem (axis_2d fmt) freeze_bn inputs) [] of
        Inl e \<Rightarrow> Inl e
      | Inr (x, outputs) \<Rightarrow>
          if include_top then
            if classes > 0 then
              Inr \<lparr>model_inputs = inputs,
                   model_outputs =
                     Single (Call (Dense classes (lit ''softmax'') (lit ''fc1000''))
                               [Call (GlobalAveragePooling2D (lit ''pool5'')) [x]])\<rparr>
            else Inl AssertionError
          else Inr \<lparr>model_inputs = inputs, model_outputs = Listed outputs\<rparr>)"
  using stage_loop_described [of block
      "default_numerical_names numerical_names residual_blocks" freeze_bn 0 residual_blocks
      "stem (axis_2d fmt) freeze_bn inputs" "[]"]
  by (simp add: ResNet2D_def py_enumerate_def Let_def split: sum.splits prod.splits)

text \<open>
  C7. A \<open>ResNet2D\<close> construction is the construction on the described stages, whatever
  the block builder and whether it returns a model or raises: the filters value starts
  at 64 and is doubled once after each stage, so every block of stage \<open>i\<close> is built with
  \<open>64 * 2 ^ i\<close>. Accordingly every block call that is made has the filters value
  \<open>64 * 2 ^ stage\<close>, and the calls of one stage share their filters value.
\<close>

theorem features_double_per_stage:
  "ResNet2D fmt inputs residual_blocks block include_top classes freeze_bn numerical_names =
     (case described_stages block
             (default_numerical_names numerical_names residual_blocks) freeze_bn 0
             residual_blocks (stem (axis_2d fmt) freeze_bn inputs) [] of
        Inl e \<Rightarrow> Inl e
      | Inr (x, outputs) \<Rightarrow>
          if include_top then
            if classes > 0 then
              Inr \<lparr>model_inputs = inputs,
                   model_outputs =
                     Single (Call (Dense classes (lit ''softmax'') (lit ''fc1000''))
                               [Call (GlobalAveragePooling2D (lit ''pool5'')) [x]])\<rparr>
            else Inl AssertionError
          else Inr \<lparr>model_inputs = inputs, model_outputs = Listed outputs\<rparr>) \<and>
   (\<forall>c \<in> set (ResNet2D_calls fmt inputs residual_blocks block freeze_bn numerical_names).
      call_features c = 64 * 2 ^ nat (call_stage c)) \<and>
   (\<forall>c \<in> set (ResNet2D_calls fmt inputs residual_blocks block freeze_bn numerical_names).
    \<forall>c' \<in> set (ResNet2D_calls fmt inputs residual_blocks block freeze_bn numerical_names).
      call_stage c = call_stage c' \<longrightarrow> call_features c = call_features c')"
  by (simp add: ResNet2D_described ResNet2D_calls_args(1))

theorem features_double_per_stage_witness:
  "ResNet2D channels_last (Input 0) [2, 1] relu_block False 1000 True None =
     Inr \<lparr>model_inputs = Input 0,
          model_outputs =
            Listed
              [Call (Activation (lit ''relu'') (lit ''stage01_relu''))
                 [Call (Activation (lit ''relu'') (lit ''stage00_relu''))
                    [stem 3 True (Input 0)]],
               Call (Activation (lit ''relu'') (lit ''stage10_relu''))
                 [Call (Activation (lit ''relu'') (lit ''stage01_relu''))
                    [Call (Activation (lit ''relu'') (lit ''stage00_relu''))
                       [stem 3 True (Input 0)]]]]\<rparr> \<and>
   \<lparr>call_features = 128, call_stage = 1, call_block = 0, call_numerical_name = False,
     call_freeze_bn = True\<rparr>
     \<in> set (ResNet2D_calls channels_last (Input 0) [2, 1] relu_block True None) \<and>
   call_features \<lparr>call_features = 128, call_stage = 1, call_block = 0,
     call_numerical_name = False, call_freeze_bn = True\<rparr> = 64 * 2 ^ nat 1"
proof -
  note t = features_double_per_stage [where fmt = channels_last and inputs = "Input 0"
      and residual_blocks = "[2, 1]" and block = relu_block and include_top = False
      and classes = 1000 and freeze_bn = True and numerical_names = None]
  have d: "default_numerical_names None [2, 1] = [True, True]"
    by (simp add: default_numerical_names_def)
  have a: "axis_2d channels_last = 3"
    by (simp add: axis_2d_def)
  from t [THEN conjunct1] have "ResNet2D channels_last (Input 0) [2, 1] relu_block False 1000
      True None =
     Inr \<lparr>model_inputs = Input 0,
          model_outputs =
            Listed
              [Call (Activation (lit ''relu'') (lit ''stage01_relu''))
                 [Call (Activation (lit ''relu'') (lit ''stage00_relu''))
                    [stem 3 True (Input 0)]],
               Call (Activation (lit ''relu'') (lit ''stage10_relu''))
                 [Call (Activation (lit ''relu'') (lit ''stage01_relu''))
                    [Call (Activation (lit ''relu'') (lit ''stage00_relu''))
                       [stem 3 True (Input 0)]]]]\<rparr>"
    unfolding d a described_example by simp
  then show ?thesis
    by (simp add: example_calls)
qed

text \<open>
  C9. Without \<open>numerical_names\<close> the list defaults to \<open>True\<close> for every entry of
  \<open>residual_blocks\<close>, and the construction is the one on the described stages with that
  list. The inner loop passes \<open>block_id > 0 and numerical_names[stage_id]\<close> as the flag
  of every block call; reaching block 0 it calls the block builder with the flag false,
  whatever \<open>numerical_names\<close> is. Accordingly every block call that is made carries that
  flag, and no call of a block 0 carries a true one.
\<close>

theorem first_block_not_numerical:
  "default_numerical_names None residual_blocks = replicate (length residual_blocks) True \<and>
   ResNet2D fmt inputs residual_blocks block include_top classes freeze_bn None =
     (case described_stages block (replicate (length residual_blocks) True) freeze_bn 0
             residual_blocks (stem (axis_2d fmt) freeze_bn inputs) [] of
        Inl e \<Rightarrow> Inl e
      | Inr (x, outputs) \<Rightarrow>
          if include_top then
            if classes > 0 then
              Inr \<lparr>model_inputs = inputs,
                   model_outputs =
                     Single (Call (Dense classes (lit ''softmax'') (lit ''fc1000''))
                               [Call (GlobalAveragePooling2D (lit ''pool5'')) [x]])\<rparr>
            else Inl AssertionError
          else Inr \<lparr>model_inputs = inputs, model_outputs = Listed outputs\<rparr>) \<and>
   block_loop block features (int i) names freeze_bn ids x =
     described_blocks block features names freeze_bn i ids x \<and>
   block_loop block features stage_id names freeze_bn (0 # ids) x =
     (case block features stage_id 0 False freeze_bn of
        Inl e \<Rightarrow> Inl e
      | Inr f \<Rightarrow> block_loop block features stage_id names freeze_bn ids (f x)) \<and>
   (\<forall>c \<in> set (ResNet2D_calls fmt inputs residual_blocks block freeze_bn numerical_names).
      call_numerical_name c =
        (call_block c > 0 \<and>
         default_numerical_names numerical_names residual_blocks ! nat (call_stage c)) \<and>
      (call_block c = 0 \<longrightarrow> \<not> call_numerical_name c) \<and>
      (numerical_names = None \<longrightarrow> call_numerical_name c = (call_block c > 0)))"
proof (intro conjI ballI)
  show d: "default_numerical_names None residual_blocks = replicate (length residual_blocks) True"
    by (simp add: default_numerical_names_def)
  show "ResNet2D fmt inputs residual_blocks block include_top classes freeze_bn None =
     (case described_stages block (replicate (length residual_blocks) True) freeze_bn 0
             residual_blocks (stem (axis_2d fmt) freeze_bn inputs) [] of
        Inl e \<Rightarrow> Inl e
      | Inr (x, outputs) \<Rightarrow>
          if include_top then
            if classes > 0 then
              Inr \<lparr>model_inputs = inputs,
                   model_outputs =
                     Single (Call (Dense classes (lit ''softmax'') (lit ''fc1000''))
                               [Call (GlobalAveragePooling2D (lit ''pool5'')) [x]])\<rparr>
            else Inl AssertionError
          else Inr \<lparr>model_inputs = inputs, model_outputs = Listed outputs\<rparr>)"
    unfolding ResNet2D_described d by (rule refl)
  show "block_loop block features (int i) names freeze_bn ids x =
     described_blocks block features names freeze_bn i ids x"
    by (rule block_loop_described)
  show "block_loop block features stage_id names freeze_bn (0 # ids) x =
     (case block features stage_id 0 False freeze_bn of
        Inl e \<Rightarrow> Inl e
      | Inr f \<Rightarrow> block_loop block features stage_id names freeze_bn ids (f x))"
    by (simp add: numerical_name_arg_def)
next
  fix c
  assume c: "c \<in> set (ResNet2D_calls fmt inputs residual_blocks block freeze_bn numerical_names)"
  note a = ResNet2D_calls_args [OF c]
  show flag: "call_numerical_name c =
        (call_block c > 0 \<and>
         default_numerical_names numerical_names residual_blocks ! nat (call_stage c))"
    using a(2,5) by (auto simp: numerical_name_arg_def dest: py_index_in_range split: if_splits)
  then show "call_block c = 0 \<longrightarrow> \<not> call_numerical_name c"
    by simp
  show "numerical_names = None \<longrightarrow> call_numerical_name c = (call_block c > 0)"
    using flag a(2,3) by (auto simp: default_numerical_names_def)
qed

theorem first_block_not_numerical_witness:
  "ResNet2D channels_last (Input 0) [2, 1] relu_block False 1000 True None =
     Inr \<lparr>model_inputs = Input 0,
          model_outputs =
            Listed
              [Call (Activation (lit ''relu'') (lit ''stage01_relu''))
                 [Call (Activation (lit ''relu'') (lit ''stage00_relu''))
                    [stem 3 True (Input 0)]],
               Call (Activation (lit ''relu'') (lit ''stage10_relu''))
                 [Call (Activation (lit ''relu'') (lit ''stage01_relu''))
                    [Call (Activation (lit ''relu'') (lit ''stage00_relu''))
                       [stem 3 True (Input 0)]]]]\<rparr> \<and>
   \<lparr>call_features = 64, call_stage = 0, call_block = 1, call_numerical_name = True,
     call_freeze_bn = True\<rparr>
     \<in> set (ResNet2D_calls channels_last (Input 0) [2, 1] relu_block True None) \<and>
   \<lparr>call_features = 128, call_stage = 1, call_block = 0, call_numerical_name = False,
     call_freeze_bn = True\<rparr>
     \<in> set (ResNet2D_calls channels_last (Input 0) [2, 1] relu_block True None) \<and>
   default_numerical_names None [2, 1] = [True, True]"
proof -
  note t = first_block_not_numerical [where fmt = channels_last and inputs = "Input 0"
      and residual_blocks = "[2, 1]" and block = relu_block and include_top = False
      and classes = 1000 and freeze_bn = True and numerical_names = None
      and features = 64 and i = 0 and names = "[True, True]" and ids = "[]"
      and x = "Input 0" and stage_id = 0]
  have r: "replicate (length [2, 1 :: int]) True = [True, True]"
    by simp
  have a: "axis_2d channels_last = 3"
    by (simp add: axis_2d_def)
  from t [THEN conjunct1] r have d: "default_numerical_names None [2, 1] = [True, True]"
    by simp
  from t [THEN conjunct2, THEN conjunct1]
  have "ResNet2D channels_last (Input 0) [2, 1] relu_block False 1000 True None =
     Inr \<lparr>model_inputs = Input 0,
          model_outputs =
            Listed
              [Call (Activation (lit ''relu'') (lit ''stage01_relu''))
                 [Call (Activation (lit ''relu'') (lit ''stage00_relu''))
                    [stem 3 True (Input 0)]],
               Call (Activation (lit ''relu'') (lit ''stage10_relu''))
                 [Call (Activation (lit ''relu'') (lit ''stage01_relu''))
                    [Call (Activation (lit ''relu'') (lit ''stage00_relu''))
                       [stem 3 True (Input 0)]]]]\<rparr>"
    unfolding r a described_example by simp
  with d show ?thesis
    by (simp add: example_calls)
qed

subsection \<open>The class count\<close>

lemma ResNet2D_Inr:
  assumes "ResNet2D fmt inputs residual_blocks block include_top classes freeze_bn
             numerical_names = Inr m"
  shows "\<exists>x outputs.
     stage_loop block (default_numerical_names numerical_names residual_blocks) freeze_bn
       (enumerate_from 0 residual_blocks) 64 (stem (axis_2d fmt) freeze_bn inputs) []
       = Inr (x, outputs) \<and>
     (include_top \<longrightarrow> 0 < classes \<and>
        model_outputs m =
          Single (Call (Dense classes (lit ''softmax'') (lit ''fc1000''))
                    [Call (GlobalAveragePooling2D (lit ''pool5'')) [x]])) \<and>
     (\<not> include_top \<longrightarrow> model_outputs m = Listed outputs)"
  using assms
  by (auto simp: ResNet2D_def Let_def py_enumerate_def split: sum.splits if_splits)

text \<open>
  C4, as the claim states it, fails without the classification layers: with
  \<open>include_top\<close> false and \<open>classes = 0\<close> the model is built.
\<close>

theorem class_count_counterexample:
  "ResNet2D channels_last (Input 0) [1] relu_block False 0 True None =
     Inr \<lparr>model_inputs = Input 0,
          model_outputs =
            Listed [Call (Activation (lit ''relu'') (lit ''stage00_relu''))
                      [stem 3 True (Input 0)]]\<rparr>"
  by (rule example_stages)

text \<open>
  C4, amended. With \<open>include_top\<close> true and \<open>classes \<le> 0\<close> no model is built: the
  construction raises, and what it raises is the assertion error whenever the residual
  stages themselves are built, that is, whenever the same construction without the
  classification layers returns a model. With \<open>include_top\<close> false the class count is
  not looked at.
\<close>

theorem class_count_checked_with_top:
  "classes \<le> 0 \<longrightarrow>
     (\<exists>e. ResNet2D fmt inputs residual_blocks block True classes freeze_bn numerical_names
        = Inl e) \<and>
     (ResNet2D fmt inputs residual_blocks block False classes freeze_bn numerical_names
        = Inr m \<longrightarrow>
      ResNet2D fmt inputs residual_blocks block True classes freeze_bn numerical_names
        = Inl AssertionError) \<and>
     ResNet2D fmt inputs residual_blocks block False classes freeze_bn numerical_names =
       ResNet2D fmt inputs residual_blocks block False classes' freeze_bn numerical_names"
  by (auto simp: ResNet2D_def Let_def split: sum.splits)

theorem class_count_checked_with_top_witness:
  "(0 :: int) \<le> 0 \<and>
   ResNet2D channels_last (Input 0) [1] relu_block False 0 True None =
     Inr \<lparr>model_inputs = Input 0,
          model_outputs =
            Listed [Call (Activation (lit ''relu'') (lit ''stage00_relu''))
                      [stem 3 True (Input 0)]]\<rparr> \<and>
   ResNet2D channels_last (Input 0) [1] relu_block True 0 True None = Inl AssertionError"
  using example_stages
    class_count_checked_with_top [of 0 channels_last "Input 0" "[1]" relu_block True None
      "\<lparr>model_inputs = Input 0,
        model_outputs =
          Listed [Call (Activation (lit ''relu'') (lit ''stage00_relu''))
                    [stem 3 True (Input 0)]]\<rparr>" 0]
  by simp

subsection \<open>The outputs of the model\<close>

lemma block_loop_last:
  "block_loop block features stage_id numerical_names freeze_bn ids x = Inr y \<Longrightarrow>
   ids \<noteq> [] \<Longrightarrow>
   \<exists>f t flag. numerical_name_arg numerical_names stage_id (last ids) = Inr flag \<and>
     block features stage_id (last ids) flag freeze_bn = Inr f \<and> y = f t"
proof (induction ids arbitrary: x)
  case Nil
  then show ?case by simp
next
  case (Cons block_id ids)
  from Cons.prems(1) obtain flag f where
    flag: "numerical_name_arg numerical_names stage_id block_id = Inr flag" and
    f: "block features stage_id block_id flag freeze_bn = Inr f" and
    rest: "block_loop block features stage_id numerical_names freeze_bn ids (f x) = Inr y"
    by (auto split: sum.splits)
  show ?case
  proof (cases "ids = []")
    case True
    with flag f rest show ?thesis by auto
  next
    case False
    from Cons.IH [OF rest False] False show ?thesis by simp
  qed
qed

lemma py_range_last: "0 < n \<Longrightarrow> py_range n \<noteq> [] \<and> last (py_range n) = n - 1"
  by (simp add: py_range_def last_map nat_diff_distrib')

lemma py_range_empty: "n \<le> 0 \<Longrightarrow> py_range n = []"
  by (simp add: py_range_def)

lemma stage_loop_outputs:
  "stage_loop block numerical_names freeze_bn (enumerate_from start rb) features x outputs
     = Inr (x', outputs') \<Longrightarrow>
   length outputs' = length outputs + length rb \<and>
   (\<forall>i < length outputs. outputs' ! i = outputs ! i) \<and>
   (\<forall>i < length rb.
      block_loop block (features * 2 ^ i) (start + int i) numerical_names freeze_bn
        (py_range (rb ! i)) (if i = 0 then x else outputs' ! (length outputs + i - 1))
      = Inr (outputs' ! (length outputs + i)))"
proof (induction rb arbitrary: start features x outputs)
  case Nil
  then show ?case by auto
next
  case (Cons n rb)
  from Cons.prems obtain y where
    y: "block_loop block features start numerical_names freeze_bn (py_range n) x = Inr y" and
    rest: "stage_loop block numerical_names freeze_bn (enumerate_from (start + 1) rb)
             (features * 2) y (outputs @ [y]) = Inr (x', outputs')"
    by (auto split: sum.splits)
  note ih = Cons.IH [OF rest]
  from ih have len: "length outputs' = length outputs + 1 + length rb"
    by simp
  from ih have old: "\<forall>i < length outputs + 1. outputs' ! i = (outputs @ [y]) ! i"
    by simp
  from ih have new: "\<forall>i < length rb.
      block_loop block (features * 2 * 2 ^ i) (start + 1 + int i) numerical_names freeze_bn
        (py_range (rb ! i))
        (if i = 0 then y else outputs' ! (length (outputs @ [y]) + i - 1))
      = Inr (outputs' ! (length (outputs @ [y]) + i))"
    by blast
  from old have here: "outputs' ! length outputs = y"
    by (metis less_add_one nth_append_length)
  from old have kept: "\<forall>i < length outputs. outputs' ! i = outputs ! i"
    by (simp add: nth_append)
  have step: "block_loop block (features * 2 ^ i) (start + int i) numerical_names freeze_bn
        (py_range ((n # rb) ! i)) (if i = 0 then x else outputs' ! (length outputs + i - 1))
      = Inr (outputs' ! (length outputs + i))" if i: "i < length (n # rb)" for i
  proof (cases i)
    case 0
    with y here show ?thesis by simp
  next
    case (Suc j)
    with i have j: "j < length rb" by simp
    have args: "features * 2 ^ i = features * 2 * 2 ^ j" "start + int i = start + 1 + int j"
      "(n # rb) ! i = rb ! j"
      "outputs' ! (length outputs + i) = outputs' ! (length (outputs @ [y]) + j)"
      by (simp_all add: Suc)
    have prev: "(if i = 0 then x else outputs' ! (length outputs + i - 1)) =
        (if j = 0 then y else outputs' ! (length (outputs @ [y]) + j - 1))"
      using here by (simp add: Suc)
    from new j have "block_loop block (features * 2 * 2 ^ j) (start + 1 + int j)
        numerical_names freeze_bn (py_range (rb ! j))
        (if j = 0 then y else outputs' ! (length (outputs @ [y]) + j - 1))
      = Inr (outputs' ! (length (outputs @ [y]) + j))"
      by blast
    then show ?thesis
      by (simp only: args prev)
  qed
  show ?case
  proof (intro conjI allI impI)
    show "length outputs' = length outputs + length (n # rb)"
      using len by simp
  next
    fix i assume "i < length outputs"
    with kept show "outputs' ! i = outputs ! i" by blast
  next
    fix i assume "i < length (n # rb)"
    then show "block_loop block (features * 2 ^ i) (start + int i) numerical_names freeze_bn
        (py_range ((n # rb) ! i)) (if i = 0 then x else outputs' ! (length outputs + i - 1))
      = Inr (outputs' ! (length outputs + i))"
      by (rule step)
  qed
qed

text \<open>
  C8, as the claim states it, fails for a stage without blocks: built on
  \<open>residual_blocks = [0]\<close> the model has one output, the tensor of the pooling layer
  in front of the stages, and no block was called at all.
\<close>

theorem stage_outputs_counterexample:
  "ResNet2D channels_last (Input 0) [0] relu_block False 1000 True None =
     Inr \<lparr>model_inputs = Input 0, model_outputs = Listed [stem 3 True (Input 0)]\<rparr> \<and>
   ResNet2D_calls channels_last (Input 0) [0] relu_block True None = []"
  by (simp add: example_simps)

text \<open>
  C8, amended. A model built with \<open>include_top\<close> false has one output per entry of
  \<open>residual_blocks\<close>. Output \<open>i\<close> is the tensor returned by the last block of stage
  \<open>i\<close> (block \<open>residual_blocks[i] - 1\<close>, called with filters \<open>64 * 2 ^ i\<close>) when
  the stage has a block, and otherwise the output of the stage before it, or the tensor
  in front of the stages for stage 0. A model built with \<open>include_top\<close> true has a
  single output: the dense softmax layer with \<open>classes\<close> units, over the global average
  pooling of the tensor the block calls end with.
\<close>

theorem stage_outputs:
  "ResNet2D fmt inputs residual_blocks block include_top classes freeze_bn numerical_names
     = Inr m \<longrightarrow>
   (include_top \<longrightarrow>
      0 < classes \<and>
      (\<exists>x. model_outputs m =
              Single (Call (Dense classes (lit ''softmax'') (lit ''fc1000''))
                        [Call (GlobalAveragePooling2D (lit ''pool5'')) [x]]) \<and>
           replay block
             (ResNet2D_calls fmt inputs residual_blocks block freeze_bn numerical_names)
             (stem (axis_2d fmt) freeze_bn inputs) = Inr x)) \<and>
   (\<not> include_top \<longrightarrow>
      (\<exists>outputs. model_outputs m = Listed outputs \<and>
         length outputs = length residual_blocks \<and>
         (\<forall>i < length residual_blocks.
            (0 < residual_blocks ! i \<longrightarrow>
               (\<exists>f t flag.
                  numerical_name_arg
                    (default_numerical_names numerical_names residual_blocks) (int i)
                    (residual_blocks ! i - 1) = Inr flag \<and>
                  block (64 * 2 ^ i) (int i) (residual_blocks ! i - 1) flag freeze_bn
                    = Inr f \<and>
                  outputs ! i = f t)) \<and>
            (residual_blocks ! i \<le> 0 \<longrightarrow>
               outputs ! i =
                 (if i = 0 then stem (axis_2d fmt) freeze_bn inputs
                  else outputs ! (i - 1))))))"
proof (intro impI)
  assume built: "ResNet2D fmt inputs residual_blocks block include_top classes freeze_bn
     numerical_names = Inr m"
  let ?names = "default_numerical_names numerical_names residual_blocks"
  let ?stem = "stem (axis_2d fmt) freeze_bn inputs"
  from ResNet2D_Inr [OF built] obtain x outputs where
    loop: "stage_loop block ?names freeze_bn (enumerate_from 0 residual_blocks) 64 ?stem []
       = Inr (x, outputs)" and
    top: "include_top \<longrightarrow> 0 < classes \<and>
        model_outputs m =
          Single (Call (Dense classes (lit ''softmax'') (lit ''fc1000''))
                    [Call (GlobalAveragePooling2D (lit ''pool5'')) [x]])" and
    no_top: "\<not> include_top \<longrightarrow> model_outputs m = Listed outputs"
    by blast
  from stage_loop_replay [OF loop] have
    replayed: "replay block
       (ResNet2D_calls fmt inputs residual_blocks block freeze_bn numerical_names) ?stem
       = Inr x"
    by (simp add: ResNet2D_calls_def py_enumerate_def)
  note outs = stage_loop_outputs [OF loop]
  from outs have len: "length outputs = length residual_blocks"
    by simp
  have stage: "block_loop block (64 * 2 ^ i) (int i) ?names freeze_bn
        (py_range (residual_blocks ! i)) (if i = 0 then ?stem else outputs ! (i - 1))
      = Inr (outputs ! i)" if "i < length residual_blocks" for i
  proof -
    from outs that have "block_loop block (64 * 2 ^ i) (0 + int i) ?names freeze_bn
        (py_range (residual_blocks ! i))
        (if i = 0 then ?stem else outputs ! (length ([] :: tensor list) + i - 1))
      = Inr (outputs ! (length ([] :: tensor list) + i))"
      by blast
    then show ?thesis by (cases "i = 0") simp_all
  qed
  have per_stage: "(0 < residual_blocks ! i \<longrightarrow>
               (\<exists>f t flag.
                  numerical_name_arg ?names (int i) (residual_blocks ! i - 1) = Inr flag \<and>
                  block (64 * 2 ^ i) (int i) (residual_blocks ! i - 1) flag freeze_bn
                    = Inr f \<and>
                  outputs ! i = f t)) \<and>
            (residual_blocks ! i \<le> 0 \<longrightarrow>
               outputs ! i = (if i = 0 then ?stem else outputs ! (i - 1)))"
    if i: "i < length residual_blocks" for i
  proof (intro conjI impI)
    assume positive: "0 < residual_blocks ! i"
    from block_loop_last [OF stage [OF i]] py_range_last [OF positive]
    show "\<exists>f t flag.
        numerical_name_arg ?names (int i) (residual_blocks ! i - 1) = Inr flag \<and>
        block (64 * 2 ^ i) (int i) (residual_blocks ! i - 1) flag freeze_bn = Inr f \<and>
        outputs ! i = f t"
      by simp
  next
    assume "residual_blocks ! i \<le> 0"
    then have "py_range (residual_blocks ! i) = []"
      by (rule py_range_empty)
    with stage [OF i] show "outputs ! i = (if i = 0 then ?stem else outputs ! (i - 1))"
      by simp
  qed
  show "(include_top \<longrightarrow>
      0 < classes \<and>
      (\<exists>x. model_outputs m =
              Single (Call (Dense classes (lit ''softmax'') (lit ''fc1000''))
                        [Call (GlobalAveragePooling2D (lit ''pool5'')) [x]]) \<and>
           replay block
             (ResNet2D_calls fmt inputs residual_blocks block freeze_bn numerical_names)
             ?stem = Inr x)) \<and>
   (\<not> include_top \<longrightarrow>
      (\<exists>outputs. model_outputs m = Listed outputs \<and>
         length outputs = length residual_blocks \<and>
         (\<forall>i < length residual_blocks.
            (0 < residual_blocks ! i \<longrightarrow>
               (\<exists>f t flag.
                  numerical_name_arg ?names (int i) (residual_blocks ! i - 1) = Inr flag \<and>
                  block (64 * 2 ^ i) (int i) (residual_blocks ! i - 1) flag freeze_bn
                    = Inr f \<and>
                  outputs ! i = f t)) \<and>
            (residual_blocks ! i \<le> 0 \<longrightarrow>
               outputs ! i = (if i = 0 then ?stem else outputs ! (i - 1))))))"
  proof (intro conjI impI)
    assume include_top
    with top show "0 < classes" by blast
    from \<open>include_top\<close> top replayed
    show "\<exists>x. model_outputs m =
              Single (Call (Dense classes (lit ''softmax'') (lit ''fc1000''))
                        [Call (GlobalAveragePooling2D (lit ''pool5'')) [x]]) \<and>
           replay block
             (ResNet2D_calls fmt inputs residual_blocks block freeze_bn numerical_names)
             ?stem = Inr x"
      by blast
  next
    assume "\<not> include_top"
    with no_top have "model_outputs m = Listed outputs" by blast
    with len per_stage
    show "\<exists>outputs. model_outputs m = Listed outputs \<and>
         length outputs = length residual_blocks \<and>
         (\<forall>i < length residual_blocks.
            (0 < residual_blocks ! i \<longrightarrow>
               (\<exists>f t flag.
                  numerical_name_arg ?names (int i) (residual_blocks ! i - 1) = Inr flag \<and>
                  block (64 * 2 ^ i) (int i) (residual_blocks ! i - 1) flag freeze_bn
                    = Inr f \<and>
                  outputs ! i = f t)) \<and>
            (residual_blocks ! i \<le> 0 \<longrightarrow>
               outputs ! i = (if i = 0 then ?stem else outputs ! (i - 1))))"
      by (intro exI [of _ outputs] conjI allI impI) blast+
  qed
qed

theorem stage_outputs_witness:
  "ResNet2D channels_last (Input 0) [1, 0] relu_block False 1000 True None =
     Inr \<lparr>model_inputs = Input 0,
          model_outputs =
            Listed [Call (Activation (lit ''relu'') (lit ''stage00_relu''))
                      [stem 3 True (Input 0)],
                    Call (Activation (lit ''relu'') (lit ''stage00_relu''))
                      [stem 3 True (Input 0)]]\<rparr> \<and>
   (\<exists>outputs f t.
      Listed [Call (Activation (lit ''relu'') (lit ''stage00_relu'')) [stem 3 True (Input 0)],
              Call (Activation (lit ''relu'') (lit ''stage00_relu'')) [stem 3 True (Input 0)]]
        = Listed outputs \<and>
      length outputs = 2 \<and>
      relu_block 64 0 0 False True = Inr f \<and> outputs ! 0 = f t \<and>
      outputs ! 1 = outputs ! 0)"
proof -
  let ?a = "Call (Activation (lit ''relu'') (lit ''stage00_relu'')) [stem 3 True (Input 0)]"
  note built = example_two_stages
  from stage_outputs [of channels_last "Input 0" "[1, 0]" relu_block False 1000 True None
      "\<lparr>model_inputs = Input 0, model_outputs = Listed [?a, ?a]\<rparr>"] built
  obtain outputs where
    o: "Listed [?a, ?a] = Listed outputs" and
    l: "length outputs = 2" and
    s: "\<forall>i < 2.
            (0 < [1, 0 :: int] ! i \<longrightarrow>
               (\<exists>f t flag.
                  numerical_name_arg (default_numerical_names None [1, 0]) (int i)
                    ([1, 0] ! i - 1) = Inr flag \<and>
                  relu_block (64 * 2 ^ i) (int i) ([1, 0] ! i - 1) flag True = Inr f \<and>
                  outputs ! i = f t)) \<and>
            ([1, 0 :: int] ! i \<le> 0 \<longrightarrow>
               outputs ! i =
                 (if i = 0 then stem (axis_2d channels_last) True (Input 0)
                  else outputs ! (i - 1)))"
    by auto
  from s [rule_format, of 0]
  obtain f t flag where
    "numerical_name_arg (default_numerical_names None [1, 0]) 0 0 = Inr flag"
    "relu_block 64 0 0 flag True = Inr f" "outputs ! 0 = f t"
    by auto
  then have "relu_block 64 0 0 False True = Inr f" "outputs ! 0 = f t"
    by (auto simp: relu_block_def)
  moreover from s [rule_format, of 1] have "outputs ! 1 = outputs ! 0"
    by simp
  ultimately show ?thesis using built o l by blast
qed

subsection \<open>The calls of a built model\<close>

lemma block_loop_calls_built:
  "block_loop block features stage_id numerical_names freeze_bn ids x = Inr y \<Longrightarrow>
   0 \<le> stage_id \<Longrightarrow>
   block_loop_calls block features stage_id numerical_names freeze_bn ids x =
     map (\<lambda>block_id.
            \<lparr>call_features = features, call_stage = stage_id, call_block = block_id,
             call_numerical_name = (block_id > 0 \<and> numerical_names ! nat stage_id),
             call_freeze_bn = freeze_bn\<rparr>) ids"
proof (induction ids arbitrary: x)
  case Nil
  then show ?case by simp
next
  case (Cons block_id ids)
  from Cons.prems(1) obtain flag f where
    flag: "numerical_name_arg numerical_names stage_id block_id = Inr flag" and
    f: "block features stage_id block_id flag freeze_bn = Inr f" and
    rest: "block_loop block features stage_id numerical_names freeze_bn ids (f x) = Inr y"
    by (auto split: sum.splits)
  from flag Cons.prems(2) have "flag = (block_id > 0 \<and> numerical_names ! nat stage_id)"
    by (auto simp: numerical_name_arg_def dest: py_index_in_range split: if_splits)
  with Cons.IH [OF rest Cons.prems(2)] flag f show ?case by simp
qed

lemma stage_loop_calls_built:
  "stage_loop block numerical_names freeze_bn (enumerate_from start rb) (64 * 2 ^ nat start)
     x outputs = Inr r \<Longrightarrow>
   0 \<le> start \<Longrightarrow>
   stage_loop_calls block numerical_names freeze_bn (enumerate_from start rb)
     (64 * 2 ^ nat start) x =
   concat (map (\<lambda>(stage_id, iterations).
                    map (\<lambda>block_id.
                           \<lparr>call_features = 64 * 2 ^ nat stage_id, call_stage = stage_id,
                            call_block = block_id,
                            call_numerical_name =
                              (block_id > 0 \<and> numerical_names ! nat stage_id),
                            call_freeze_bn = freeze_bn\<rparr>)
                      (py_range iterations))
               (enumerate_from start rb))"
proof (induction rb arbitrary: start x outputs)
  case Nil
  then show ?case by simp
next
  case (Cons n rb)
  have next_features: "64 * 2 ^ nat start * 2 = (64 :: int) * 2 ^ nat (start + 1)"
    using Cons.prems(2) by (simp add: nat_add_distrib)
  from Cons.prems(1) obtain y where
    y: "block_loop block (64 * 2 ^ nat start) start numerical_names freeze_bn (py_range n) x
          = Inr y" and
    rest: "stage_loop block numerical_names freeze_bn (enumerate_from (start + 1) rb)
             (64 * 2 ^ nat (start + 1)) y (outputs @ [y]) = Inr r"
    by (auto simp: next_features split: sum.splits)
  from Cons.prems(2) have "0 \<le> start + 1" by simp
  from Cons.IH [OF rest this] block_loop_calls_built [OF y Cons.prems(2)] y
  show ?case by (simp add: next_features)
qed

text \<open>
  When the construction returns a model, the calls made are exactly the planned ones:
  stage by stage, every block from 0 up to the stage's count, with the stage's features.
\<close>

lemma calls_of_a_built_model:
  "ResNet2D fmt inputs residual_blocks block include_top classes freeze_bn numerical_names
     = Inr m \<longrightarrow>
   ResNet2D_calls fmt inputs residual_blocks block freeze_bn numerical_names =
     planned_calls (default_numerical_names numerical_names residual_blocks) freeze_bn
       residual_blocks"
proof
  assume "ResNet2D fmt inputs residual_blocks block include_top classes freeze_bn
     numerical_names = Inr m"
  from ResNet2D_Inr [OF this] obtain r where
    "stage_loop block (default_numerical_names numerical_names residual_blocks) freeze_bn
       (enumerate_from 0 residual_blocks) 64 (stem (axis_2d fmt) freeze_bn inputs) []
       = Inr r"
    by blast
  from stage_loop_calls_built [of block _ freeze_bn 0 residual_blocks _ "[]" r] this
  show "ResNet2D_calls fmt inputs residual_blocks block freeze_bn numerical_names =
     planned_calls (default_numerical_names numerical_names residual_blocks) freeze_bn
       residual_blocks"
    by (simp add: ResNet2D_calls_def planned_calls_def py_enumerate_def)
qed

end
